theory Spec2Isabelle
  imports Main "HOL-Library.Word"
begin

unbundle bit_operations_syntax

section \<open>Machine values\<close>

text \<open>
  Fixed-width integers are words. A C++ \<^verbatim>\<open>int\<close> is a 32-bit word read by \<open>sint\<close>;
  its conversion to \<^verbatim>\<open>uint32_t\<close> keeps the 32 bits. A \<^verbatim>\<open>float\<close> or \<^verbatim>\<open>double\<close>
  is carried as its IEEE-754 bit pattern: the program only copies such values, it never
  computes with them.
\<close>

type_synonym u8 = "8 word"
type_synonym u16 = "16 word"
type_synonym u32 = "32 word"
type_synonym c_int = "32 word"
type_synonym float32 = "32 word"
type_synonym float64 = "64 word"

text \<open>The doubles \<^verbatim>\<open>0.0\<close> and \<^verbatim>\<open>1.0\<close>, which the integer literals 0 and 1 convert to.\<close>

definition double_0 :: float64 where
  "double_0 = 0"

definition double_1 :: float64 where
  "double_1 = 0x3FF0000000000000"

text \<open>
  The object representation of a value in the memory of the host, lowest address first.
  The host's byte order is a parameter: \<open>True\<close> is a big-endian host.
\<close>

definition native_u16 :: "bool \<Rightarrow> u16 \<Rightarrow> u8 list" where
  "native_u16 big v =
     (let le = [ucast v, ucast (drop_bit 8 v)] in if big then rev le else le)"

definition native_f32 :: "bool \<Rightarrow> float32 \<Rightarrow> u8 list" where
  "native_f32 big v =
     (let le = [ucast v, ucast (drop_bit 8 v), ucast (drop_bit 16 v), ucast (drop_bit 24 v)]
      in if big then rev le else le)"

section \<open>The sensor frame (visionary::SafeVisionaryData)\<close>

text \<open>
  Modelled from the spec: the frame class is declared outside this file. The record holds
  what the getters the publisher calls return (the spec's SensorFrame). \<open>generatePointCloud\<close> is the vector that the call of that name
  fills, \<open>transformPointCloud\<close> the in-place transformation of that vector.
\<close>

record CameraParameters =
  fx :: float64
  fy :: float64
  cx :: float64
  cy :: float64
  k1 :: float64
  k2 :: float64
  p1 :: float64
  p2 :: float64
  k3 :: float64

record PointXYZ =
  x :: float32
  y :: float32
  z :: float32

record IMUVector =
  vec_X :: float64
  vec_Y :: float64
  vec_Z :: float64

record IMUQuaternion =
  quat_X :: float64
  quat_Y :: float64
  quat_Z :: float64
  quat_W :: float64

record IMUData =
  acceleration :: IMUVector
  angularVelocity :: IMUVector
  orientation :: IMUQuaternion

record GeneralStatus =
  applicationError :: bool
  contaminationError :: bool
  contaminationWarning :: bool
  deadZoneDetection :: bool
  deviceError :: bool
  temperatureWarning :: bool
  runModeActive :: bool
  waitForCluster :: bool
  waitForInput :: bool

record ActiveMonitoringCase =
  currentCaseNumberMonitoringCase1 :: u8
  currentCaseNumberMonitoringCase2 :: u8
  currentCaseNumberMonitoringCase3 :: u8
  currentCaseNumberMonitoringCase4 :: u8

record DeviceStatusData =
  generalStatus :: GeneralStatus
  COPNonSaftyRelated :: u32
  COPSaftyRelated :: u32
  COPResetRequired :: u32
  activeMonitoringCase :: ActiveMonitoringCase
  contaminationLevel :: u8

record UniversalIOConfigured =
  configuredUniIOPin5 :: bool
  configuredUniIOPin6 :: bool
  configuredUniIOPin7 :: bool
  configuredUniIOPin8 :: bool

record UniversalIODirection =
  directionValueUniIOPin5 :: bool
  directionValueUniIOPin6 :: bool
  directionValueUniIOPin7 :: bool
  directionValueUniIOPin8 :: bool

record UniversalIOInputValue =
  logicalValueUniIOPin5 :: bool
  logicalValueUniIOPin6 :: bool
  logicalValueUniIOPin7 :: bool
  logicalValueUniIOPin8 :: bool

record UniversalIOOutputValue =
  localOutput1Pin5 :: bool
  localOutput2Pin6 :: bool
  localOutput3Pin7 :: bool
  localOutput4Pin8 :: bool

record OssdsState =
  stateOSSD1A :: bool
  stateOSSD1B :: bool
  stateOSSD2A :: bool
  stateOSSD2B :: bool

record LocalIOData =
  universalIOConfigured :: UniversalIOConfigured
  universalIODirection :: UniversalIODirection
  universalIOInputValue :: UniversalIOInputValue
  universalIOOutputValue :: UniversalIOOutputValue
  ossdsState :: OssdsState
  ossdsDynCount :: u8
  ossdsCRC :: u8
  ossdsIOStatus :: u8
  dynamicSpeedA :: u16
  dynamicSpeedB :: u16
  DynamicValidFlags :: u16

record RoiResult =
  distanceSafe :: bool
  distanceValid :: bool
  resultSafe :: bool
  resultValid :: bool
  taskResult :: u8

record RoiSafetyMembers =
  invalidDueToInvalidPixels :: bool
  invalidDueToVariance :: bool
  invalidDueToOverexposure :: bool
  invalidDueToUnderexposure :: bool
  invalidDueToTemporalVariance :: bool
  invalidDueToOutsideOfMeasurementRange :: bool
  invalidDueToRetroReflectorInterference :: bool
  contaminationError_roi :: bool
  qualityClass :: u8
  slotActive :: bool

record RoiSafetyRelatedData =
  tMembers :: RoiSafetyMembers

record Roi =
  roi_id :: u8
  distanceValue :: u16
  result :: RoiResult
  safetyRelatedData :: RoiSafetyRelatedData

record FieldInformation_in =
  fieldID :: u8
  fieldSetID :: u8
  fieldActive :: bool
  fieldResult :: u8
  evalMethod :: u8

record SafeVisionaryData =
  height :: c_int
  width :: c_int
  cameraParameters :: CameraParameters
  distanceMap :: "u16 list"
  intensityMap :: "u16 list"
  stateMap :: "u8 list"
  generatePointCloud :: "PointXYZ list"
  transformPointCloud :: "PointXYZ list \<Rightarrow> PointXYZ list"
  imuData :: IMUData
  deviceStatus :: u8
  deviceStatusData :: DeviceStatusData
  localIOData :: LocalIOData
  roiData :: "Roi list"
  fieldInformation :: "FieldInformation_in list"

section \<open>The output messages\<close>

text \<open>
  Modelled from the spec: the message types are declared outside this file. Each message
  record holds the fields the publisher assigns; the other fields keep the value their
  constructor gives them and are left out. The projection array \<open>K\<close> of a fresh
  CameraInfo is nine zeros (the remaining slots are zero).
\<close>

record RosTime =
  sec :: u32
  nsec :: u32

record Header =
  seq :: u32
  stamp :: RosTime
  frame_id :: string

record CameraInfo =
  ci_header :: Header
  ci_height :: u32
  ci_width :: u32
  D :: "float64 list"
  K :: "float64 list"

record PointField =
  pf_name :: string
  pf_offset :: u32
  pf_datatype :: u8
  pf_count :: u32

record PointCloud2 =
  pc_header :: Header
  pc_height :: u32
  pc_width :: u32
  pc_fields :: "PointField list"
  pc_is_bigendian :: bool
  point_step :: u32
  row_step :: u32
  pc_data :: "u8 list"
  pc_is_dense :: bool

record Image =
  img_header :: Header
  img_height :: u32
  img_width :: u32
  img_encoding :: string
  img_is_bigendian :: bool
  img_step :: u32
  img_data :: "u8 list"

record Vector3 =
  v3_x :: float64
  v3_y :: float64
  v3_z :: float64

record Quaternion =
  q_x :: float64
  q_y :: float64
  q_z :: float64
  q_w :: float64

record Imu =
  imu_header :: Header
  imu_orientation :: Quaternion
  angular_velocity :: Vector3
  linear_acceleration :: Vector3

record GeneralStatusMsg =
  application_error :: bool
  contamination_error :: bool
  contamination_warning :: bool
  dead_zone_detection :: bool
  device_error :: bool
  temperature_warning :: bool
  run_mode_active :: bool
  wait_for_cluster :: bool
  wait_for_input :: bool

record ActiveMonitoringCaseMsg =
  monitoring_case_1 :: u8
  monitoring_case_2 :: u8
  monitoring_case_3 :: u8
  monitoring_case_4 :: u8

record DeviceStatus =
  ds_header :: Header
  status :: u8
  general_status :: GeneralStatusMsg
  COP_non_safety_related :: u32
  COP_safety_related :: u32
  COP_reset_required :: u32
  active_monitoring_case :: ActiveMonitoringCaseMsg
  contamination_level :: u8

record CameraIOPins =
  pin_5 :: bool
  pin_6 :: bool
  pin_7 :: bool
  pin_8 :: bool

record OSSDState =
  OSSD1A :: bool
  OSSD1B :: bool
  OSSD2A :: bool
  OSSD2B :: bool

record CameraIO =
  io_header :: Header
  configured :: CameraIOPins
  direction :: CameraIOPins
  input_values :: CameraIOPins
  output_values :: CameraIOPins
  ossds_state :: OSSDState
  ossds_dyn_count :: u8
  ossds_crc :: u8
  ossds_io_status :: u8
  dynamic_speed_a :: u16
  dynamic_speed_b :: u16
  dynamic_valid_flags :: u16

record ROIResultMsg =
  distance_safe :: bool
  distance_valid :: bool
  result_safe :: bool
  result_valid :: bool
  task_result :: u8

record ROISafetyMsg =
  invalid_due_to_invalid_pixels :: bool
  invalid_due_to_variance :: bool
  invalid_due_to_overexposure :: bool
  invalid_due_to_underexposure :: bool
  invalid_due_to_temporal_variance :: bool
  invalid_due_to_outside_of_measurement_range :: bool
  invalid_due_to_retro_reflector_interference :: bool
  contamination_error_roi :: bool
  quality_class :: u8
  slot_active :: bool

record ROI =
  id_roi :: u8
  distance_value :: u16
  result_data :: ROIResultMsg
  safety_data :: ROISafetyMsg

record ROIArray =
  roi_header :: Header
  rois :: "ROI list"

record FieldInformation =
  field_id :: u8
  field_set_id :: u8
  field_active :: bool
  field_result :: u8
  eval_method :: u8

record FieldInformationArray =
  fia_header :: Header
  fia_fields :: "FieldInformation list"

datatype message =
    CameraInfoMsg CameraInfo
  | PointCloud2Msg PointCloud2
  | ImageMsg Image
  | ImuMsg Imu
  | DeviceStatusMsg DeviceStatus
  | CameraIOMsg CameraIO
  | ROIArrayMsg ROIArray
  | FieldInformationArrayMsg FieldInformationArray

fun msg_header :: "message \<Rightarrow> Header" where
  "msg_header (CameraInfoMsg m) = ci_header m"
| "msg_header (PointCloud2Msg m) = pc_header m"
| "msg_header (ImageMsg m) = img_header m"
| "msg_header (ImuMsg m) = imu_header m"
| "msg_header (DeviceStatusMsg m) = ds_header m"
| "msg_header (CameraIOMsg m) = io_header m"
| "msg_header (ROIArrayMsg m) = roi_header m"
| "msg_header (FieldInformationArrayMsg m) = fia_header m"

section \<open>The transport, the memory and the log of one call\<close>

text \<open>One channel for each publisher member of the class.\<close>

datatype channel =
    camera_info_pub
  | pointcloud_pub
  | depth_pub
  | intensity_pub
  | state_pub
  | imu_pub
  | device_status_pub
  | io_pub
  | roi_pub
  | field_pub

text \<open>
  A copy that leaves its destination is undefined behaviour in C++, and cv::Mat throws on
  a negative dimension (nothing in the class catches it). Both end the call: they are
  the two faults.
\<close>

datatype error = OutOfBounds | CvException

text \<open>
  What a run does, in order: a transcode routine is entered, the point buffer is resized,
  the two point-cloud calls of the frame are made, a diagnostic is logged, a message is
  handed to a publisher.
\<close>

datatype event =
    Invoke channel
  | Resize nat
  | GeneratePointCloud
  | TransformPointCloud
  | Info string
  | Publish channel message

text \<open>
  The world a call runs in: the subscriber count each publisher reports, the byte order
  of the host, the bytes that memory allocated without initialisation holds (for the
  raster of each image channel), the events so far, and the fault that ended the run.
\<close>

record world =
  getNumSubscribers :: "channel \<Rightarrow> nat"
  host_big_endian :: bool
  uninitialised :: "channel \<Rightarrow> nat \<Rightarrow> u8"
  trace :: "event list"
  fault :: "error option"

definition emit :: "event \<Rightarrow> world \<Rightarrow> world" where
  "emit e w = w\<lparr>trace := trace w @ [e]\<rparr>"

definition crash :: "error \<Rightarrow> world \<Rightarrow> world" where
  "crash e w = w\<lparr>fault := Some e\<rparr>"

text \<open>\<^verbatim>\<open>memcpy(&dst[off], src, n)\<close>: defined only when the \<open>n\<close> bytes fit in \<open>dst\<close>.\<close>

definition memcpy :: "u8 list \<Rightarrow> nat \<Rightarrow> u8 list \<Rightarrow> error + u8 list" where
  "memcpy dst off src =
     (if off + length src \<le> length dst
      then Inr (take off dst @ src @ drop (off + length src) dst)
      else Inl OutOfBounds)"

section \<open>publishCameraInfo\<close>

definition Header_init :: Header where
  "Header_init = \<lparr>seq = 0, stamp = \<lparr>sec = 0, nsec = 0\<rparr>, frame_id = []\<rparr>"

definition CameraInfo_init :: CameraInfo where
  "CameraInfo_init =
     \<lparr>ci_header = Header_init, ci_height = 0, ci_width = 0, D = [], K = replicate 9 double_0\<rparr>"

definition publishCameraInfo :: "Header \<Rightarrow> SafeVisionaryData \<Rightarrow> world \<Rightarrow> world" where
  "publishCameraInfo header frame_data w =
     (let w = emit (Invoke camera_info_pub) w;
          camera_info = CameraInfo_init;
          camera_info = camera_info\<lparr>ci_header := header\<rparr>;
          camera_info = camera_info\<lparr>ci_height := height frame_data\<rparr>;
          camera_info = camera_info\<lparr>ci_width := width frame_data\<rparr>;
          camera_info = camera_info\<lparr>D := replicate 5 double_0\<rparr>;
          camera_info = camera_info\<lparr>D := (D camera_info)[0 := k1 (cameraParameters frame_data)]\<rparr>;
          camera_info = camera_info\<lparr>D := (D camera_info)[1 := k2 (cameraParameters frame_data)]\<rparr>;
          camera_info = camera_info\<lparr>D := (D camera_info)[2 := p1 (cameraParameters frame_data)]\<rparr>;
          camera_info = camera_info\<lparr>D := (D camera_info)[3 := p2 (cameraParameters frame_data)]\<rparr>;
          camera_info = camera_info\<lparr>D := (D camera_info)[4 := k3 (cameraParameters frame_data)]\<rparr>;
          camera_info = camera_info\<lparr>K := (K camera_info)[0 := fx (cameraParameters frame_data)]\<rparr>;
          camera_info = camera_info\<lparr>K := (K camera_info)[2 := cx (cameraParameters frame_data)]\<rparr>;
          camera_info = camera_info\<lparr>K := (K camera_info)[4 := fy (cameraParameters frame_data)]\<rparr>;
          camera_info = camera_info\<lparr>K := (K camera_info)[5 := cy (cameraParameters frame_data)]\<rparr>;
          camera_info = camera_info\<lparr>K := (K camera_info)[8 := double_1]\<rparr>
      in emit (Publish camera_info_pub (CameraInfoMsg camera_info)) w)"

section \<open>publishPointCloud\<close>

definition FLOAT32 :: u8 where
  "FLOAT32 = 7"

definition UINT16 :: u8 where
  "UINT16 = 4"

definition PointField_init :: PointField where
  "PointField_init = \<lparr>pf_name = [], pf_offset = 0, pf_datatype = 0, pf_count = 0\<rparr>"

definition PointCloud2_init :: PointCloud2 where
  "PointCloud2_init =
     \<lparr>pc_header = Header_init, pc_height = 0, pc_width = 0, pc_fields = [],
      pc_is_bigendian = False, point_step = 0, row_step = 0, pc_data = [],
      pc_is_dense = False\<rparr>"

text \<open>\<^verbatim>\<open>sizeof(float)\<close>, \<^verbatim>\<open>sizeof(uint16_t)\<close> and \<^verbatim>\<open>sizeof(visionary::PointXYZ)\<close> (three floats).\<close>

definition sizeof_float :: nat where
  "sizeof_float = 4"

definition sizeof_uint16_t :: nat where
  "sizeof_uint16_t = 2"

definition sizeof_PointXYZ :: nat where
  "sizeof_PointXYZ = 12"

definition native_PointXYZ :: "bool \<Rightarrow> PointXYZ \<Rightarrow> u8 list" where
  "native_PointXYZ big p = native_f32 big (x p) @ native_f32 big (y p) @ native_f32 big (z p)"

text \<open>
  The description of the four fields of a point (the field array is resized to four, named,
  and given offsets, with \<open>offset\<close> the running int); it does not depend on the frame.
  \<open>set_float_field\<close> is one round of the loop over the three coordinate fields.
\<close>

definition set_float_field :: "nat \<Rightarrow> PointField list \<times> c_int \<Rightarrow> PointField list \<times> c_int" where
  "set_float_field i = (\<lambda>(fields, offset).
     (fields[i := (fields ! i)\<lparr>pf_offset := offset, pf_datatype := FLOAT32, pf_count := 1\<rparr>],
      offset + of_nat sizeof_float))"

definition describe_fields :: "PointField list \<times> c_int" where
  "describe_fields =
     (let fields = replicate 4 PointField_init;
          fields = fields[0 := (fields ! 0)\<lparr>pf_name := ''x''\<rparr>];
          fields = fields[1 := (fields ! 1)\<lparr>pf_name := ''y''\<rparr>];
          fields = fields[2 := (fields ! 2)\<lparr>pf_name := ''z''\<rparr>];
          fields = fields[3 := (fields ! 3)\<lparr>pf_name := ''intensity''\<rparr>];
          (fields, offset) = fold set_float_field [0..<3] (fields, 0);
          fields = fields[3 := (fields ! 3)\<lparr>pf_offset := offset, pf_datatype := UINT16, pf_count := 1\<rparr>];
          offset = offset + of_nat sizeof_uint16_t
      in (fields, offset))"

text \<open>
  The packing loop, from index \<open>i\<close> on: the rest of \<open>point_vec\<close> and of the intensity
  map are walked together. The guard before the loop makes the two equally long, so the
  second equation is never reached from there.
\<close>

fun copy_points :: "bool \<Rightarrow> nat \<Rightarrow> PointXYZ list \<Rightarrow> u16 list \<Rightarrow> PointCloud2 \<Rightarrow> error + PointCloud2" where
  "copy_points big i [] intensity_it cloud_msg = Inr cloud_msg"
| "copy_points big i (p # point_it) [] cloud_msg = Inl OutOfBounds"
| "copy_points big i (p # point_it) (v # intensity_it) cloud_msg =
     (case memcpy (pc_data cloud_msg)
             (i * unat (point_step cloud_msg) + unat (pf_offset (pc_fields cloud_msg ! 0)))
             (take sizeof_PointXYZ (native_PointXYZ big p)) of
        Inl e \<Rightarrow> Inl e
      | Inr data1 \<Rightarrow>
         (case memcpy data1
                 (i * unat (point_step cloud_msg) + unat (pf_offset (pc_fields cloud_msg ! 3)))
                 (take sizeof_uint16_t (native_u16 big v)) of
            Inl e \<Rightarrow> Inl e
          | Inr data2 \<Rightarrow> copy_points big (Suc i) point_it intensity_it (cloud_msg\<lparr>pc_data := data2\<rparr>)))"

definition publishPointCloud :: "Header \<Rightarrow> SafeVisionaryData \<Rightarrow> world \<Rightarrow> world" where
  "publishPointCloud header frame_data w =
     (let w = emit (Invoke pointcloud_pub) w;
          cloud_msg = PointCloud2_init;
          cloud_msg = cloud_msg\<lparr>pc_header := header, pc_height := height frame_data,
                        pc_width := width frame_data, pc_is_dense := False,
                        pc_is_bigendian := False\<rparr>;
          (fields, offset) = describe_fields;
          cloud_msg = cloud_msg\<lparr>pc_fields := fields, point_step := offset\<rparr>;
          cloud_msg = cloud_msg\<lparr>row_step := point_step cloud_msg * pc_width cloud_msg\<rparr>;
          cloud_msg = cloud_msg\<lparr>pc_data := replicate (unat (pc_height cloud_msg * row_step cloud_msg)) 0\<rparr>;
          w = emit (Resize (length (pc_data cloud_msg))) w;
          point_vec = generatePointCloud frame_data;
          w = emit GeneratePointCloud w;
          point_vec = transformPointCloud frame_data point_vec;
          w = emit TransformPointCloud w
      in if length (intensityMap frame_data) \<noteq> length point_vec
         then emit (Info ''Missmatch point and intensity data.'') w
         else (case copy_points (host_big_endian w) 0 point_vec (intensityMap frame_data) cloud_msg of
                 Inl e \<Rightarrow> crash e w
               | Inr cloud_msg \<Rightarrow> emit (Publish pointcloud_pub (PointCloud2Msg cloud_msg)) w))"

section \<open>The field-copy channels\<close>

definition publishIMUData :: "Header \<Rightarrow> SafeVisionaryData \<Rightarrow> world \<Rightarrow> world" where
  "publishIMUData header frame_data w =
     (let w = emit (Invoke imu_pub) w;
          imu_msg = \<lparr>
            imu_header = header,
            imu_orientation = \<lparr>
              q_x = quat_X (orientation (imuData frame_data)),
              q_y = quat_Y (orientation (imuData frame_data)),
              q_z = quat_Z (orientation (imuData frame_data)),
              q_w = quat_W (orientation (imuData frame_data))\<rparr>,
            angular_velocity = \<lparr>
              v3_x = vec_X (angularVelocity (imuData frame_data)),
              v3_y = vec_Y (angularVelocity (imuData frame_data)),
              v3_z = vec_Z (angularVelocity (imuData frame_data))\<rparr>,
            linear_acceleration = \<lparr>
              v3_x = vec_X (acceleration (imuData frame_data)),
              v3_y = vec_Y (acceleration (imuData frame_data)),
              v3_z = vec_Z (acceleration (imuData frame_data))\<rparr>\<rparr>
      in emit (Publish imu_pub (ImuMsg imu_msg)) w)"

definition publishDeviceStatus :: "Header \<Rightarrow> SafeVisionaryData \<Rightarrow> world \<Rightarrow> world" where
  "publishDeviceStatus header frame_data w =
     (let w = emit (Invoke device_status_pub) w;
          device_status_msg = \<lparr>
            ds_header = header,
            status = deviceStatus frame_data,
            general_status = \<lparr>
              application_error = applicationError (generalStatus (deviceStatusData frame_data)),
              contamination_error = contaminationError (generalStatus (deviceStatusData frame_data)),
              contamination_warning = contaminationWarning (generalStatus (deviceStatusData frame_data)),
              dead_zone_detection = deadZoneDetection (generalStatus (deviceStatusData frame_data)),
              device_error = deviceError (generalStatus (deviceStatusData frame_data)),
              temperature_warning = temperatureWarning (generalStatus (deviceStatusData frame_data)),
              run_mode_active = runModeActive (generalStatus (deviceStatusData frame_data)),
              wait_for_cluster = waitForCluster (generalStatus (deviceStatusData frame_data)),
              wait_for_input = waitForInput (generalStatus (deviceStatusData frame_data))\<rparr>,
            COP_non_safety_related = COPNonSaftyRelated (deviceStatusData frame_data),
            COP_safety_related = COPSaftyRelated (deviceStatusData frame_data),
            COP_reset_required = COPResetRequired (deviceStatusData frame_data),
            active_monitoring_case = \<lparr>
              monitoring_case_1 = currentCaseNumberMonitoringCase1 (activeMonitoringCase (deviceStatusData frame_data)),
              monitoring_case_2 = currentCaseNumberMonitoringCase2 (activeMonitoringCase (deviceStatusData frame_data)),
              monitoring_case_3 = currentCaseNumberMonitoringCase3 (activeMonitoringCase (deviceStatusData frame_data)),
              monitoring_case_4 = currentCaseNumberMonitoringCase4 (activeMonitoringCase (deviceStatusData frame_data))\<rparr>,
            contamination_level = contaminationLevel (deviceStatusData frame_data)\<rparr>
      in emit (Publish device_status_pub (DeviceStatusMsg device_status_msg)) w)"

definition publishIOs :: "Header \<Rightarrow> SafeVisionaryData \<Rightarrow> world \<Rightarrow> world" where
  "publishIOs header frame_data w =
     (let w = emit (Invoke io_pub) w;
          camera_io_msg = \<lparr>
            io_header = header,
            configured = \<lparr>
              pin_5 = configuredUniIOPin5 (universalIOConfigured (localIOData frame_data)),
              pin_6 = configuredUniIOPin6 (universalIOConfigured (localIOData frame_data)),
              pin_7 = configuredUniIOPin7 (universalIOConfigured (localIOData frame_data)),
              pin_8 = configuredUniIOPin8 (universalIOConfigured (localIOData frame_data))\<rparr>,
            direction = \<lparr>
              pin_5 = directionValueUniIOPin5 (universalIODirection (localIOData frame_data)),
              pin_6 = directionValueUniIOPin6 (universalIODirection (localIOData frame_data)),
              pin_7 = directionValueUniIOPin7 (universalIODirection (localIOData frame_data)),
              pin_8 = directionValueUniIOPin8 (universalIODirection (localIOData frame_data))\<rparr>,
            input_values = \<lparr>
              pin_5 = logicalValueUniIOPin5 (universalIOInputValue (localIOData frame_data)),
              pin_6 = logicalValueUniIOPin6 (universalIOInputValue (localIOData frame_data)),
              pin_7 = logicalValueUniIOPin7 (universalIOInputValue (localIOData frame_data)),
              pin_8 = logicalValueUniIOPin8 (universalIOInputValue (localIOData frame_data))\<rparr>,
            output_values = \<lparr>
              pin_5 = localOutput1Pin5 (universalIOOutputValue (localIOData frame_data)),
              pin_6 = localOutput2Pin6 (universalIOOutputValue (localIOData frame_data)),
              pin_7 = localOutput3Pin7 (universalIOOutputValue (localIOData frame_data)),
              pin_8 = localOutput4Pin8 (universalIOOutputValue (localIOData frame_data))\<rparr>,
            ossds_state = \<lparr>
              OSSD1A = stateOSSD1A (ossdsState (localIOData frame_data)),
              OSSD1B = stateOSSD1B (ossdsState (localIOData frame_data)),
              OSSD2A = stateOSSD2A (ossdsState (localIOData frame_data)),
              OSSD2B = stateOSSD2B (ossdsState (localIOData frame_data))\<rparr>,
            ossds_dyn_count = ossdsDynCount (localIOData frame_data),
            ossds_crc = ossdsCRC (localIOData frame_data),
            ossds_io_status = ossdsIOStatus (localIOData frame_data),
            dynamic_speed_a = dynamicSpeedA (localIOData frame_data),
            dynamic_speed_b = dynamicSpeedB (localIOData frame_data),
            dynamic_valid_flags = DynamicValidFlags (localIOData frame_data)\<rparr>
      in emit (Publish io_pub (CameraIOMsg camera_io_msg)) w)"

text \<open>The body of the loop over the regions of interest: one message entry, pushed back.\<close>

definition push_roi :: "Roi \<Rightarrow> ROIArray \<Rightarrow> ROIArray" where
  "push_roi roi roi_array_msg =
     (let roi_msg = \<lparr>
            id_roi = roi_id roi,
            distance_value = distanceValue roi,
            result_data = \<lparr>
              distance_safe = distanceSafe (result roi),
              distance_valid = distanceValid (result roi),
              result_safe = resultSafe (result roi),
              result_valid = resultValid (result roi),
              task_result = taskResult (result roi)\<rparr>,
            safety_data = \<lparr>
              invalid_due_to_invalid_pixels = invalidDueToInvalidPixels (tMembers (safetyRelatedData roi)),
              invalid_due_to_variance = invalidDueToVariance (tMembers (safetyRelatedData roi)),
              invalid_due_to_overexposure = invalidDueToOverexposure (tMembers (safetyRelatedData roi)),
              invalid_due_to_underexposure = invalidDueToUnderexposure (tMembers (safetyRelatedData roi)),
              invalid_due_to_temporal_variance = invalidDueToTemporalVariance (tMembers (safetyRelatedData roi)),
              invalid_due_to_outside_of_measurement_range =
                invalidDueToOutsideOfMeasurementRange (tMembers (safetyRelatedData roi)),
              invalid_due_to_retro_reflector_interference =
                invalidDueToRetroReflectorInterference (tMembers (safetyRelatedData roi)),
              contamination_error_roi = contaminationError_roi (tMembers (safetyRelatedData roi)),
              quality_class = qualityClass (tMembers (safetyRelatedData roi)),
              slot_active = slotActive (tMembers (safetyRelatedData roi))\<rparr>\<rparr>
      in roi_array_msg\<lparr>rois := rois roi_array_msg @ [roi_msg]\<rparr>)"

definition publishROI :: "Header \<Rightarrow> SafeVisionaryData \<Rightarrow> world \<Rightarrow> world" where
  "publishROI header frame_data w =
     (let w = emit (Invoke roi_pub) w;
          roi_array_msg = \<lparr>roi_header = Header_init, rois = []\<rparr>;
          roi_array_msg = roi_array_msg\<lparr>roi_header := header\<rparr>;
          roi_array_msg = fold push_roi (roiData frame_data) roi_array_msg
      in emit (Publish roi_pub (ROIArrayMsg roi_array_msg)) w)"

definition push_field :: "FieldInformation_in \<Rightarrow> FieldInformationArray \<Rightarrow> FieldInformationArray" where
  "push_field field field_array_msg =
     (let field_msg = \<lparr>
            field_id = fieldID field,
            field_set_id = fieldSetID field,
            field_active = fieldActive field,
            field_result = fieldResult field,
            eval_method = evalMethod field\<rparr>
      in field_array_msg\<lparr>fia_fields := fia_fields field_array_msg @ [field_msg]\<rparr>)"

definition publishFieldInformation :: "Header \<Rightarrow> SafeVisionaryData \<Rightarrow> world \<Rightarrow> world" where
  "publishFieldInformation header frame_data w =
     (let w = emit (Invoke field_pub) w;
          field_array_msg = \<lparr>fia_header = Header_init, fia_fields = []\<rparr>;
          field_array_msg = field_array_msg\<lparr>fia_header := header\<rparr>;
          field_array_msg = fold push_field (fieldInformation frame_data) field_array_msg
      in emit (Publish field_pub (FieldInformationArrayMsg field_array_msg)) w)"

section \<open>The raster-image channels\<close>

text \<open>
  Modelled from the spec: OpenCV and cv_bridge are libraries outside this file; where the
  spec is silent their documented behaviour is followed. \<open>cvMat\<close> is
  \<^verbatim>\<open>cv::Mat(rows, cols, type)\<close>: a raster of \<open>rows \<times> cols\<close> samples of \<open>elemSize\<close> bytes
  each, whose storage is allocated and not initialised, so that it holds the bytes \<open>mem\<close>
  that were there before; a negative dimension throws. \<open>toImageMsg\<close> wraps the raster's
  storage, byte for byte, with the encoding and the dimensions.
\<close>

definition cvMat :: "c_int \<Rightarrow> c_int \<Rightarrow> nat \<Rightarrow> (nat \<Rightarrow> u8) \<Rightarrow> error + u8 list" where
  "cvMat rows cols elemSize mem =
     (if sint rows < 0 \<or> sint cols < 0 then Inl CvException
      else Inr (map mem [0..<nat (sint rows) * nat (sint cols) * elemSize]))"

definition toImageMsg :: "bool \<Rightarrow> Header \<Rightarrow> string \<Rightarrow> c_int \<Rightarrow> c_int \<Rightarrow> nat \<Rightarrow> u8 list \<Rightarrow> Image" where
  "toImageMsg big header encoding rows cols elemSize img =
     \<lparr>img_header = header, img_height = rows, img_width = cols, img_encoding = encoding,
      img_is_bigendian = big, img_step = cols * of_nat elemSize, img_data = img\<rparr>"

definition Vec16ToImage ::
  "bool \<Rightarrow> (nat \<Rightarrow> u8) \<Rightarrow> Header \<Rightarrow> SafeVisionaryData \<Rightarrow> u16 list \<Rightarrow> error + Image" where
  "Vec16ToImage big mem header frame_data vec =
     (case cvMat (height frame_data) (width frame_data) 2 mem of
        Inl e \<Rightarrow> Inl e
      | Inr img \<Rightarrow>
         (case memcpy img 0 (take (length vec * sizeof_uint16_t) (concat (map (native_u16 big) vec))) of
            Inl e \<Rightarrow> Inl e
          | Inr img \<Rightarrow>
              Inr (toImageMsg big header ''16UC1'' (height frame_data) (width frame_data) 2 img)))"

definition Vec8ToImage ::
  "bool \<Rightarrow> (nat \<Rightarrow> u8) \<Rightarrow> Header \<Rightarrow> SafeVisionaryData \<Rightarrow> u8 list \<Rightarrow> error + Image" where
  "Vec8ToImage big mem header frame_data vec =
     (case cvMat (height frame_data) (width frame_data) 1 mem of
        Inl e \<Rightarrow> Inl e
      | Inr img \<Rightarrow>
         (case memcpy img 0 (take (length vec * 1) vec) of
            Inl e \<Rightarrow> Inl e
          | Inr img \<Rightarrow>
              Inr (toImageMsg big header ''8UC1'' (height frame_data) (width frame_data) 1 img)))"

definition publishDepthImage :: "Header \<Rightarrow> SafeVisionaryData \<Rightarrow> world \<Rightarrow> world" where
  "publishDepthImage header frame_data w =
     (let w = emit (Invoke depth_pub) w
      in case Vec16ToImage (host_big_endian w) (uninitialised w depth_pub) header frame_data
                (distanceMap frame_data) of
           Inl e \<Rightarrow> crash e w
         | Inr img \<Rightarrow> emit (Publish depth_pub (ImageMsg img)) w)"

definition publishIntensityImage :: "Header \<Rightarrow> SafeVisionaryData \<Rightarrow> world \<Rightarrow> world" where
  "publishIntensityImage header frame_data w =
     (let w = emit (Invoke intensity_pub) w
      in case Vec16ToImage (host_big_endian w) (uninitialised w intensity_pub) header frame_data
                (intensityMap frame_data) of
           Inl e \<Rightarrow> crash e w
         | Inr img \<Rightarrow> emit (Publish intensity_pub (ImageMsg img)) w)"

definition publishStateMap :: "Header \<Rightarrow> SafeVisionaryData \<Rightarrow> world \<Rightarrow> world" where
  "publishStateMap header frame_data w =
     (let w = emit (Invoke state_pub) w
      in case Vec8ToImage (host_big_endian w) (uninitialised w state_pub) header frame_data
                (stateMap frame_data) of
           Inl e \<Rightarrow> crash e w
         | Inr img \<Rightarrow> emit (Publish state_pub (ImageMsg img)) w)"

section \<open>publish: the per-frame entry point\<close>

text \<open>
  Ten gates in the order of the source. After a fault nothing more of the call is
  defined, so a gate is only evaluated while the run has none.
\<close>

definition subscribed :: "world \<Rightarrow> channel \<Rightarrow> bool" where
  "subscribed w c = (fault w = None \<and> 0 < getNumSubscribers w c)"

definition publish :: "Header \<Rightarrow> SafeVisionaryData \<Rightarrow> world \<Rightarrow> world" where
  "publish header frame_data w =
     (let w = (if subscribed w camera_info_pub then publishCameraInfo header frame_data w else w);
          w = (if subscribed w pointcloud_pub then publishPointCloud header frame_data w else w);
          w = (if subscribed w depth_pub then publishDepthImage header frame_data w else w);
          w = (if subscribed w intensity_pub then publishIntensityImage header frame_data w else w);
          w = (if subscribed w state_pub then publishStateMap header frame_data w else w);
          w = (if subscribed w imu_pub then publishIMUData header frame_data w else w);
          w = (if subscribed w device_status_pub then publishDeviceStatus header frame_data w else w);
          w = (if subscribed w io_pub then publishIOs header frame_data w else w);
          w = (if subscribed w roi_pub then publishROI header frame_data w else w);
          w = (if subscribed w field_pub then publishFieldInformation header frame_data w else w)
      in w)"

section \<open>Derived notions used in the statements\<close>

text \<open>
  The four field descriptions that \<open>describe_fields\<close> computes, the number of bytes the
  point buffer is resized to (a product of 32-bit unsigned values), and the message as it
  stands when the packing loop starts.
\<close>

definition point_fields :: "PointField list" where
  "point_fields =
     [\<lparr>pf_name = ''x'', pf_offset = 0, pf_datatype = FLOAT32, pf_count = 1\<rparr>,
      \<lparr>pf_name = ''y'', pf_offset = 4, pf_datatype = FLOAT32, pf_count = 1\<rparr>,
      \<lparr>pf_name = ''z'', pf_offset = 8, pf_datatype = FLOAT32, pf_count = 1\<rparr>,
      \<lparr>pf_name = ''intensity'', pf_offset = 12, pf_datatype = UINT16, pf_count = 1\<rparr>]"

definition buffer_size :: "SafeVisionaryData \<Rightarrow> nat" where
  "buffer_size frame_data = unat (height frame_data * (14 * width frame_data))"

definition cloud_before_copy :: "Header \<Rightarrow> SafeVisionaryData \<Rightarrow> PointCloud2" where
  "cloud_before_copy header frame_data =
     \<lparr>pc_header = header, pc_height = height frame_data, pc_width = width frame_data,
      pc_fields = point_fields, pc_is_bigendian = False, point_step = 14,
      row_step = 14 * width frame_data,
      pc_data = replicate (buffer_size frame_data) 0, pc_is_dense = False\<rparr>"

text \<open>The fourteen bytes of one point: its coordinates, then its intensity sample.\<close>

definition point_record :: "bool \<Rightarrow> PointXYZ \<times> u16 \<Rightarrow> u8 list" where
  "point_record big = (\<lambda>(p, v). native_PointXYZ big p @ native_u16 big v)"

text \<open>
  A structural copy, in the spec's words: every named sub-field of the frame's entry is
  found, unchanged, in the matching field of the message's entry.
\<close>

definition roi_copied :: "Roi \<Rightarrow> ROI \<Rightarrow> bool" where
  "roi_copied roi roi_msg \<longleftrightarrow>
     id_roi roi_msg = roi_id roi
   \<and> distance_value roi_msg = distanceValue roi
   \<and> distance_safe (result_data roi_msg) = distanceSafe (result roi)
   \<and> distance_valid (result_data roi_msg) = distanceValid (result roi)
   \<and> result_safe (result_data roi_msg) = resultSafe (result roi)
   \<and> result_valid (result_data roi_msg) = resultValid (result roi)
   \<and> task_result (result_data roi_msg) = taskResult (result roi)
   \<and> invalid_due_to_invalid_pixels (safety_data roi_msg) =
       invalidDueToInvalidPixels (tMembers (safetyRelatedData roi))
   \<and> invalid_due_to_variance (safety_data roi_msg) =
       invalidDueToVariance (tMembers (safetyRelatedData roi))
   \<and> invalid_due_to_overexposure (safety_data roi_msg) =
       invalidDueToOverexposure (tMembers (safetyRelatedData roi))
   \<and> invalid_due_to_underexposure (safety_data roi_msg) =
       invalidDueToUnderexposure (tMembers (safetyRelatedData roi))
   \<and> invalid_due_to_temporal_variance (safety_data roi_msg) =
       invalidDueToTemporalVariance (tMembers (safetyRelatedData roi))
   \<and> invalid_due_to_outside_of_measurement_range (safety_data roi_msg) =
       invalidDueToOutsideOfMeasurementRange (tMembers (safetyRelatedData roi))
   \<and> invalid_due_to_retro_reflector_interference (safety_data roi_msg) =
       invalidDueToRetroReflectorInterference (tMembers (safetyRelatedData roi))
   \<and> contamination_error_roi (safety_data roi_msg) =
       contaminationError_roi (tMembers (safetyRelatedData roi))
   \<and> quality_class (safety_data roi_msg) = qualityClass (tMembers (safetyRelatedData roi))
   \<and> slot_active (safety_data roi_msg) = slotActive (tMembers (safetyRelatedData roi))"

definition field_copied :: "FieldInformation_in \<Rightarrow> FieldInformation \<Rightarrow> bool" where
  "field_copied field field_msg \<longleftrightarrow>
     field_id field_msg = fieldID field
   \<and> field_set_id field_msg = fieldSetID field
   \<and> field_active field_msg = fieldActive field
   \<and> field_result field_msg = fieldResult field
   \<and> eval_method field_msg = evalMethod field"

section \<open>The entry point as a walk over the channels\<close>

text \<open>
  The ten gates of \<open>publish\<close> in their order, the routine behind each gate, and one gate.
  The steps a routine logs all belong to its channel.
\<close>

definition channels :: "channel list" where
  "channels = [camera_info_pub, pointcloud_pub, depth_pub, intensity_pub, state_pub, imu_pub,
               device_status_pub, io_pub, roi_pub, field_pub]"

fun channel_run :: "channel \<Rightarrow> Header \<Rightarrow> SafeVisionaryData \<Rightarrow> world \<Rightarrow> world" where
  "channel_run camera_info_pub = publishCameraInfo"
| "channel_run pointcloud_pub = publishPointCloud"
| "channel_run depth_pub = publishDepthImage"
| "channel_run intensity_pub = publishIntensityImage"
| "channel_run state_pub = publishStateMap"
| "channel_run imu_pub = publishIMUData"
| "channel_run device_status_pub = publishDeviceStatus"
| "channel_run io_pub = publishIOs"
| "channel_run roi_pub = publishROI"
| "channel_run field_pub = publishFieldInformation"

definition gate :: "Header \<Rightarrow> SafeVisionaryData \<Rightarrow> channel \<Rightarrow> world \<Rightarrow> world" where
  "gate header frame_data c w =
     (if subscribed w c then channel_run c header frame_data w else w)"

fun event_channel :: "event \<Rightarrow> channel" where
  "event_channel (Invoke c) = c"
| "event_channel (Publish c m) = c"
| "event_channel (Resize n) = pointcloud_pub"
| "event_channel GeneratePointCloud = pointcloud_pub"
| "event_channel TransformPointCloud = pointcloud_pub"
| "event_channel (Info s) = pointcloud_pub"

definition events_on :: "channel \<Rightarrow> event list \<Rightarrow> event list" where
  "events_on c evs = filter (\<lambda>e. event_channel e = c) evs"

text \<open>
  What one routine adds to the log and whether it ends the run, read off a run of it in a
  world with an empty log; and the same for a list of gates, given the subscriber counts.
\<close>

definition blank_world :: "bool \<Rightarrow> (channel \<Rightarrow> nat \<Rightarrow> u8) \<Rightarrow> world" where
  "blank_world big mem =
     \<lparr>getNumSubscribers = (\<lambda>c. 0), host_big_endian = big, uninitialised = mem, trace = [],
      fault = None\<rparr>"

definition channel_effect ::
  "channel \<Rightarrow> Header \<Rightarrow> SafeVisionaryData \<Rightarrow> bool \<Rightarrow> (channel \<Rightarrow> nat \<Rightarrow> u8) \<Rightarrow> event list \<times> error option" where
  "channel_effect c header frame_data big mem =
     (let w = channel_run c header frame_data (blank_world big mem) in (trace w, fault w))"

fun run_channels ::
  "channel list \<Rightarrow> Header \<Rightarrow> SafeVisionaryData \<Rightarrow> (channel \<Rightarrow> nat) \<Rightarrow> bool \<Rightarrow> (channel \<Rightarrow> nat \<Rightarrow> u8)
     \<Rightarrow> event list \<times> error option" where
  "run_channels [] header frame_data subs big mem = ([], None)"
| "run_channels (c # cs) header frame_data subs big mem =
     (if 0 < subs c
      then (case channel_effect c header frame_data big mem of
              (evs, Some e) \<Rightarrow> (evs, Some e)
            | (evs, None) \<Rightarrow>
                (case run_channels cs header frame_data subs big mem of
                   (evs', fl) \<Rightarrow> (evs @ evs', fl)))
      else run_channels cs header frame_data subs big mem)"

text \<open>
  The channels whose routine only copies fields, the helper result behind an image
  channel, the point-cloud message after a copy that fits, what the point-cloud routine
  adds to the log, and the failed length check.
\<close>

definition simple_channel :: "channel \<Rightarrow> bool" where
  "simple_channel c \<longleftrightarrow> c \<noteq> pointcloud_pub \<and> c \<noteq> depth_pub \<and> c \<noteq> intensity_pub \<and> c \<noteq> state_pub"

text \<open>The source map and the helper of each image channel.\<close>

definition raster_result :: "channel \<Rightarrow> bool \<Rightarrow> (nat \<Rightarrow> u8) \<Rightarrow> Header \<Rightarrow> SafeVisionaryData \<Rightarrow> error + Image" where
  "raster_result c big mem header frame_data =
     (if c = depth_pub then Vec16ToImage big mem header frame_data (distanceMap frame_data)
      else if c = intensity_pub then Vec16ToImage big mem header frame_data (intensityMap frame_data)
      else Vec8ToImage big mem header frame_data (stateMap frame_data))"

definition packed_cloud :: "bool \<Rightarrow> Header \<Rightarrow> SafeVisionaryData \<Rightarrow> PointCloud2" where
  "packed_cloud big header frame_data =
     (cloud_before_copy header frame_data)\<lparr>pc_data :=
        concat (map (point_record big)
          (zip (transformPointCloud frame_data (generatePointCloud frame_data))
               (intensityMap frame_data))) @
        replicate (buffer_size frame_data - 14 * length (intensityMap frame_data)) 0\<rparr>"

definition cloud_effect :: "bool \<Rightarrow> Header \<Rightarrow> SafeVisionaryData \<Rightarrow> event list \<times> error option" where
  "cloud_effect big header frame_data =
     (if length (intensityMap frame_data) \<noteq>
         length (transformPointCloud frame_data (generatePointCloud frame_data))
      then ([Invoke pointcloud_pub, Resize (buffer_size frame_data), GeneratePointCloud,
             TransformPointCloud, Info ''Missmatch point and intensity data.''], None)
      else if buffer_size frame_data < 14 * length (intensityMap frame_data)
      then ([Invoke pointcloud_pub, Resize (buffer_size frame_data), GeneratePointCloud,
             TransformPointCloud], Some OutOfBounds)
      else ([Invoke pointcloud_pub, Resize (buffer_size frame_data), GeneratePointCloud,
             TransformPointCloud,
             Publish pointcloud_pub (PointCloud2Msg (packed_cloud big header frame_data))], None))"

definition mismatch :: "SafeVisionaryData \<Rightarrow> bool" where
  "mismatch frame_data \<longleftrightarrow>
     length (intensityMap frame_data) \<noteq>
     length (transformPointCloud frame_data (generatePointCloud frame_data))"

text \<open>The number of samples in the source map of an image channel.\<close>

definition source_length :: "channel \<Rightarrow> SafeVisionaryData \<Rightarrow> nat" where
  "source_length c frame_data =
     (if c = depth_pub then length (distanceMap frame_data)
      else if c = intensity_pub then length (intensityMap frame_data)
      else length (stateMap frame_data))"

section \<open>Example inputs\<close>

text \<open>
  A header, a world in which every channel has one subscriber, and a frame of one row and
  two columns whose maps and point list have two entries each. The other frames differ
  from it in the fields named.
\<close>

definition example_header :: Header where
  "example_header = \<lparr>seq = 7, stamp = \<lparr>sec = 100, nsec = 5\<rparr>, frame_id = ''cam''\<rparr>"

definition example_world :: world where
  "example_world =
     \<lparr>getNumSubscribers = (\<lambda>c. 1), host_big_endian = False, uninitialised = (\<lambda>c i. 0xAA),
      trace = [], fault = None\<rparr>"

definition example_frame :: SafeVisionaryData where
 "example_frame = \<lparr>height = 1, width = 2,
   cameraParameters = \<lparr>fx = 1, fy = 2, cx = 3, cy = 4, k1 = 5, k2 = 6, p1 = 7, p2 = 8, k3 = 9\<rparr>,
   distanceMap = [1,2], intensityMap = [0x0102, 0x0304], stateMap = [1,2],
   generatePointCloud = [\<lparr>x = 0x11223344, y = 2, z = 3\<rparr>, \<lparr>x = 4, y = 5, z = 6\<rparr>],
   transformPointCloud = (\<lambda>ps. ps),
   imuData = \<lparr>acceleration = \<lparr>vec_X = 1, vec_Y = 2, vec_Z = 3\<rparr>, angularVelocity = \<lparr>vec_X = 4, vec_Y = 5, vec_Z = 6\<rparr>,
              orientation = \<lparr>quat_X = 7, quat_Y = 8, quat_Z = 9, quat_W = 10\<rparr>\<rparr>,
   deviceStatus = 1,
   deviceStatusData = \<lparr>generalStatus = \<lparr>applicationError = False, contaminationError = False, contaminationWarning = True,
        deadZoneDetection = False, deviceError = False, temperatureWarning = False, runModeActive = True,
        waitForCluster = False, waitForInput = False\<rparr>,
      COPNonSaftyRelated = 1, COPSaftyRelated = 2, COPResetRequired = 3,
      activeMonitoringCase = \<lparr>currentCaseNumberMonitoringCase1 = 1, currentCaseNumberMonitoringCase2 = 2,
        currentCaseNumberMonitoringCase3 = 3, currentCaseNumberMonitoringCase4 = 4\<rparr>,
      contaminationLevel = 5\<rparr>,
   localIOData = \<lparr>universalIOConfigured = \<lparr>configuredUniIOPin5 = True, configuredUniIOPin6 = False, configuredUniIOPin7 = True, configuredUniIOPin8 = False\<rparr>,
      universalIODirection = \<lparr>directionValueUniIOPin5 = True, directionValueUniIOPin6 = True, directionValueUniIOPin7 = False, directionValueUniIOPin8 = False\<rparr>,
      universalIOInputValue = \<lparr>logicalValueUniIOPin5 = False, logicalValueUniIOPin6 = False, logicalValueUniIOPin7 = True, logicalValueUniIOPin8 = True\<rparr>,
      universalIOOutputValue = \<lparr>localOutput1Pin5 = True, localOutput2Pin6 = False, localOutput3Pin7 = False, localOutput4Pin8 = True\<rparr>,
      ossdsState = \<lparr>stateOSSD1A = True, stateOSSD1B = True, stateOSSD2A = False, stateOSSD2B = False\<rparr>,
      ossdsDynCount = 1, ossdsCRC = 2, ossdsIOStatus = 3, dynamicSpeedA = 4, dynamicSpeedB = 5, DynamicValidFlags = 6\<rparr>,
   roiData =
     [\<lparr>roi_id = 1, distanceValue = 1500,
       result = \<lparr>distanceSafe = True, distanceValid = True, resultSafe = False, resultValid = True,
                  taskResult = 2\<rparr>,
       safetyRelatedData = \<lparr>tMembers = \<lparr>invalidDueToInvalidPixels = False,
         invalidDueToVariance = False, invalidDueToOverexposure = True,
         invalidDueToUnderexposure = False, invalidDueToTemporalVariance = False,
         invalidDueToOutsideOfMeasurementRange = False,
         invalidDueToRetroReflectorInterference = False, contaminationError_roi = False,
         qualityClass = 3, slotActive = True\<rparr>\<rparr>\<rparr>,
      \<lparr>roi_id = 9, distanceValue = 720,
       result = \<lparr>distanceSafe = False, distanceValid = True, resultSafe = True, resultValid = False,
                  taskResult = 1\<rparr>,
       safetyRelatedData = \<lparr>tMembers = \<lparr>invalidDueToInvalidPixels = True,
         invalidDueToVariance = False, invalidDueToOverexposure = False,
         invalidDueToUnderexposure = False, invalidDueToTemporalVariance = True,
         invalidDueToOutsideOfMeasurementRange = False,
         invalidDueToRetroReflectorInterference = False, contaminationError_roi = True,
         qualityClass = 1, slotActive = False\<rparr>\<rparr>\<rparr>],
   fieldInformation =
     [\<lparr>fieldID = 3, fieldSetID = 1, fieldActive = True, fieldResult = 2, evalMethod = 0\<rparr>,
      \<lparr>fieldID = 4, fieldSetID = 1, fieldActive = False, fieldResult = 0, evalMethod = 1\<rparr>]\<rparr>"


text \<open>A row of 306783379 pixels: fourteen bytes for each exceeds 32 bits by ten.\<close>

definition wide_frame :: SafeVisionaryData where
  "wide_frame = example_frame\<lparr>height := 1, width := 306783379,
     intensityMap := replicate 306783379 0,
     generatePointCloud := replicate 306783379 \<lparr>x = 0, y = 0, z = 0\<rparr>\<rparr>"

text \<open>The same dimensions, with a single point and a single intensity sample.\<close>

definition wide_frame_one_point :: SafeVisionaryData where
  "wide_frame_one_point = example_frame\<lparr>height := 1, width := 306783379,
     intensityMap := [7],
     generatePointCloud := [\<lparr>x = 1, y = 2, z = 3\<rparr>]\<rparr>"

text \<open>Two points against one intensity sample.\<close>

definition mismatch_frame :: SafeVisionaryData where
  "mismatch_frame = example_frame\<lparr>intensityMap := [0x0102]\<rparr>"

text \<open>Worlds in which only some channels have a subscriber.\<close>

definition cloud_only_world :: world where
  "cloud_only_world =
     example_world\<lparr>getNumSubscribers := (\<lambda>c. if c = pointcloud_pub then 1 else 0)\<rparr>"

definition depth_only_world :: world where
  "depth_only_world =
     example_world\<lparr>getNumSubscribers := (\<lambda>c. if c = depth_pub then 1 else 0)\<rparr>"

text \<open>A frame whose distance map is empty, and other contents of fresh memory.\<close>

definition empty_distance_frame :: SafeVisionaryData where
  "empty_distance_frame = example_frame\<lparr>distanceMap := []\<rparr>"

definition later_memory :: "channel \<Rightarrow> nat \<Rightarrow> u8" where
  "later_memory = (\<lambda>c i. 0x55)"

text \<open>One pixel for two points and two intensity samples; all three image channels subscribed.\<close>

definition crowded_frame :: SafeVisionaryData where
  "crowded_frame = example_frame\<lparr>width := 1\<rparr>"

definition images_world :: world where
  "images_world =
     example_world\<lparr>getNumSubscribers :=
       (\<lambda>c. if c = depth_pub \<or> c = intensity_pub \<or> c = state_pub then 1 else 0)\<rparr>"


section \<open>Auxiliary facts\<close>

subsection \<open>The lists of regions and fields\<close>

lemma fold_push_roi:
  "fold push_roi rs a = a\<lparr>rois := rois a @ map (\<lambda>r. last (rois (push_roi r a))) rs\<rparr>"
proof (induction rs arbitrary: a)
  case Nil
  show ?case by simp
next
  case (Cons r rs)
  show ?case by (simp add: Cons.IH) (simp add: push_roi_def)
qed

lemma fold_push_field:
  "fold push_field fs a = a\<lparr>fia_fields := fia_fields a @ map (\<lambda>r. last (fia_fields (push_field r a))) fs\<rparr>"
proof (induction fs arbitrary: a)
  case Nil
  show ?case by simp
next
  case (Cons r rs)
  show ?case by (simp add: Cons.IH) (simp add: push_field_def)
qed

subsection \<open>The point-cloud routine\<close>

lemma describe_fields_eq: "describe_fields = (point_fields, 14)"
  by (simp add: describe_fields_def PointField_init_def set_float_field_def sizeof_float_def
      sizeof_uint16_t_def point_fields_def upt_rec numeral_eq_Suc)

lemma publishPointCloud_unfold:
  "publishPointCloud header frame_data w =
     (let w' = w\<lparr>trace := trace w @ [Invoke pointcloud_pub, Resize (buffer_size frame_data),
                  GeneratePointCloud, TransformPointCloud]\<rparr>;
          point_vec = transformPointCloud frame_data (generatePointCloud frame_data)
      in if length (intensityMap frame_data) \<noteq> length point_vec
         then emit (Info ''Missmatch point and intensity data.'') w'
         else (case copy_points (host_big_endian w) 0 point_vec (intensityMap frame_data)
                      (cloud_before_copy header frame_data) of
                 Inl e \<Rightarrow> crash e w'
               | Inr cloud_msg \<Rightarrow> emit (Publish pointcloud_pub (PointCloud2Msg cloud_msg)) w'))"
  by (simp add: publishPointCloud_def describe_fields_eq Let_def emit_def PointCloud2_init_def
      cloud_before_copy_def buffer_size_def cong: sum.case_cong)

lemma length_native_u16 [simp]: "length (native_u16 big v) = 2"
  by (simp add: native_u16_def Let_def)

lemma length_native_f32 [simp]: "length (native_f32 big v) = 4"
  by (simp add: native_f32_def Let_def)

lemma length_native_PointXYZ [simp]: "length (native_PointXYZ big p) = 12"
  by (simp add: native_PointXYZ_def)

lemma length_point_record [simp]: "length (point_record big pv) = 14"
  by (cases pv) (simp add: point_record_def)

lemma length_concat_const:
  "(\<And>x. length (g x) = c) \<Longrightarrow> length (concat (map g xs)) = c * length xs"
  by (induction xs) simp_all

lemma chunk_of_concat:
  "(\<And>x. length (g x) = c) \<Longrightarrow> k < length xs \<Longrightarrow>
   take c (drop (k * c) (concat (map g xs))) = g (xs ! k)"
proof (induction xs arbitrary: k)
  case Nil
  then show ?case by simp
next
  case (Cons a xs)
  show ?case
  proof (cases k)
    case 0
    then show ?thesis using Cons.prems(1) by simp
  next
    case (Suc j)
    then have "j < length xs" using Cons.prems(2) by simp
    then have "take c (drop (j * c) (concat (map g xs))) = g (xs ! j)"
      using Cons.IH Cons.prems(1) by blast
    then show ?thesis using Suc Cons.prems(1) by (simp add: add.commute)
  qed
qed

lemma copy_points_split:
  assumes "point_step m = 14" "pf_offset (pc_fields m ! 0) = 0" "pf_offset (pc_fields m ! 3) = 12"
    and "length ps = length vs"
    and "pc_data m = pre @ body @ post" "length pre = 14 * i" "length body = 14 * length ps"
  shows "copy_points big i ps vs m =
           Inr (m\<lparr>pc_data := pre @ concat (map (point_record big) (zip ps vs)) @ post\<rparr>)"
  using assms
proof (induction ps arbitrary: vs i m pre body)
  case Nil
  then show ?case by simp
next
  case (Cons p ps)
  then obtain v vs' where vs: "vs = v # vs'" by (cases vs) auto
  from Cons.prems have len: "length body = 14 + 14 * length ps" by simp
  define b where "b = take 14 body"
  define body' where "body' = drop 14 body"
  have body: "body = b @ body'" and lb: "length b = 14" and lb': "length body' = 14 * length ps"
    using len by (simp_all add: b_def body'_def)
  have m1: "memcpy (pc_data m) (i * 14) (native_PointXYZ big p) =
              Inr (pre @ native_PointXYZ big p @ drop 12 b @ body' @ post)"
    using Cons.prems(5,6) body lb by (simp add: memcpy_def mult.commute)
  have m2: "memcpy (pre @ native_PointXYZ big p @ drop 12 b @ body' @ post) (i * 14 + 12) (native_u16 big v) =
              Inr ((pre @ point_record big (p, v)) @ body' @ post)"
    using Cons.prems(6) lb by (simp add: memcpy_def mult.commute point_record_def)
  let ?m' = "m\<lparr>pc_data := (pre @ point_record big (p, v)) @ body' @ post\<rparr>"
  have IH: "copy_points big (Suc i) ps vs' ?m' =
      Inr (?m'\<lparr>pc_data := (pre @ point_record big (p, v)) @ concat (map (point_record big) (zip ps vs')) @ post\<rparr>)"
    by (rule Cons.IH) (use Cons.prems vs lb' in simp_all)
  show ?case
    using IH Cons.prems(1-3) by (simp add: vs m1 m2 sizeof_PointXYZ_def sizeof_uint16_t_def)
qed

lemma length_memcpy: "memcpy dst off src = Inr dst' \<Longrightarrow> length dst' = length dst"
  by (auto simp: memcpy_def split: if_splits)

lemma copy_points_overflow:
  assumes "point_step m = 14" "pf_offset (pc_fields m ! 0) = 0" "pf_offset (pc_fields m ! 3) = 12"
    and "length ps = length vs" "ps \<noteq> []" "length (pc_data m) < 14 * (i + length ps)"
  shows "copy_points big i ps vs m = Inl OutOfBounds"
  using assms
proof (induction ps arbitrary: vs i m)
  case Nil
  then show ?case by simp
next
  case (Cons p ps)
  then obtain v vs' where vs: "vs = v # vs'" by (cases vs) auto
  show ?case
  proof (cases "memcpy (pc_data m) (i * 14) (native_PointXYZ big p)")
    case (Inl e)
    then have "e = OutOfBounds" by (auto simp: memcpy_def split: if_splits)
    then show ?thesis using Inl Cons.prems(1-3) by (simp add: vs sizeof_PointXYZ_def)
  next
    case (Inr data1)
    note d1 = this
    have l1: "length data1 = length (pc_data m)" using d1 by (rule length_memcpy)
    show ?thesis
    proof (cases "memcpy data1 (i * 14 + 12) (native_u16 big v)")
      case (Inl e)
      then have "e = OutOfBounds" by (auto simp: memcpy_def split: if_splits)
      then show ?thesis using Inl d1 Cons.prems(1-3)
        by (simp add: vs sizeof_PointXYZ_def sizeof_uint16_t_def)
    next
      case (Inr data2)
      have l2: "length data2 = length (pc_data m)" using Inr l1 length_memcpy by fastforce
      have fits: "i * 14 + 14 \<le> length data1"
        using Inr by (auto simp: memcpy_def split: if_splits)
      have ne: "ps \<noteq> []" using fits l1 Cons.prems(6) by auto
      have "copy_points big (Suc i) ps vs' (m\<lparr>pc_data := data2\<rparr>) = Inl OutOfBounds"
        by (rule Cons.IH) (use Cons.prems vs l2 ne in simp_all)
      then show ?thesis using Inr d1 Cons.prems(1-3)
        by (simp add: vs sizeof_PointXYZ_def sizeof_uint16_t_def)
    qed
  qed
qed

lemma buffer_size_exact:
  fixes h w :: "32 word"
  assumes "int n = sint h * sint w" "14 * n < 2 ^ 32"
  shows "unat (h * (14 * w)) = 14 * n"
proof -
  have "h * (14 * w) = word_of_int (sint h) * (14 * word_of_int (sint w))"
    by simp
  also have "\<dots> = word_of_int (14 * (sint h * sint w))"
    by (simp only: of_int_mult of_int_numeral mult.left_commute mult.assoc)
  also have "\<dots> = word_of_int (int (14 * n))"
    using assms(1) by simp
  also have "\<dots> = of_nat (14 * n)"
    by simp
  finally have "unat (h * (14 * w)) = unat (of_nat (14 * n) :: 32 word)"
    by simp
  also have "\<dots> = (14 * n) mod 2 ^ LENGTH(32)"
    by (rule unat_of_nat)
  also have "\<dots> = 14 * n"
    using assms(2) by simp
  finally show ?thesis .
qed

lemma cloud_before_copy_simps [simp]:
  "point_step (cloud_before_copy header f) = 14"
  "pf_offset (pc_fields (cloud_before_copy header f) ! 0) = 0"
  "pf_offset (pc_fields (cloud_before_copy header f) ! 3) = 12"
  "pc_data (cloud_before_copy header f) = replicate (buffer_size f) 0"
  by (simp_all add: cloud_before_copy_def point_fields_def)

lemma copy_points_fits:
  assumes "length ps = length vs" "14 * length ps \<le> buffer_size f"
  shows "copy_points big 0 ps vs (cloud_before_copy header f) =
           Inr ((cloud_before_copy header f)\<lparr>pc_data :=
                  concat (map (point_record big) (zip ps vs)) @
                  replicate (buffer_size f - 14 * length ps) 0\<rparr>)"
proof -
  have split: "pc_data (cloud_before_copy header f) =
      [] @ replicate (14 * length ps) 0 @ replicate (buffer_size f - 14 * length ps) 0"
    using assms(2) by (simp add: replicate_add [symmetric])
  show ?thesis
    using copy_points_split [where m = "cloud_before_copy header f" and pre = "[]" and i = 0
        and body = "replicate (14 * length ps) 0"
        and post = "replicate (buffer_size f - 14 * length ps) 0" and ps = ps and vs = vs and big = big]
      assms(1) split
    by simp
qed

lemma copy_points_too_long:
  assumes "length ps = length vs" "buffer_size f < 14 * length ps"
  shows "copy_points big 0 ps vs (cloud_before_copy header f) = Inl OutOfBounds"
proof -
  have "ps \<noteq> []" using assms(2) by auto
  then show ?thesis
    using copy_points_overflow [where m = "cloud_before_copy header f" and i = 0 and ps = ps
        and vs = vs and big = big] assms
    by simp
qed

lemma point_record_slices:
  assumes "length ps = length vs" "i < length ps"
  shows "take 12 (drop (i * 14) (concat (map (point_record big) (zip ps vs)) @ rest)) =
           native_PointXYZ big (ps ! i)"
    and "take 2 (drop (i * 14 + 12) (concat (map (point_record big) (zip ps vs)) @ rest)) =
           native_u16 big (vs ! i)"
proof -
  let ?D = "concat (map (point_record big) (zip ps vs))"
  have len: "length ?D = 14 * length ps"
    using assms(1) length_concat_const [of "point_record big" 14 "zip ps vs"] by simp
  have chunk: "take 14 (drop (i * 14) ?D) = point_record big (ps ! i, vs ! i)"
    using chunk_of_concat [of "point_record big" 14 i "zip ps vs"] assms by simp
  have inside: "i * 14 + 14 \<le> length ?D" using len assms(2) by simp
  have "take 12 (drop (i * 14) (?D @ rest)) = take 12 (take 14 (drop (i * 14) ?D))"
    using inside by simp
  then show "take 12 (drop (i * 14) (?D @ rest)) = native_PointXYZ big (ps ! i)"
    by (simp only: chunk) (simp add: point_record_def)
  have "take 2 (drop (i * 14 + 12) (?D @ rest)) = drop 12 (take 14 (drop (i * 14) ?D))"
    using inside by (simp add: drop_take add.commute)
  then show "take 2 (drop (i * 14 + 12) (?D @ rest)) = native_u16 big (vs ! i)"
    by (simp only: chunk) (simp add: point_record_def)
qed

lemma publishPointCloud_fits:
  assumes eq: "length (transformPointCloud frame_data (generatePointCloud frame_data)) =
               length (intensityMap frame_data)"
    and fits: "14 * length (intensityMap frame_data) \<le> buffer_size frame_data"
  shows "publishPointCloud header frame_data w =
     w\<lparr>trace := trace w @ [Invoke pointcloud_pub, Resize (buffer_size frame_data),
            GeneratePointCloud, TransformPointCloud,
            Publish pointcloud_pub (PointCloud2Msg
              ((cloud_before_copy header frame_data)\<lparr>pc_data :=
                  concat (map (point_record (host_big_endian w))
                    (zip (transformPointCloud frame_data (generatePointCloud frame_data))
                         (intensityMap frame_data))) @
                  replicate (buffer_size frame_data - 14 * length (intensityMap frame_data)) 0\<rparr>))]\<rparr>"
proof -
  have copy: "copy_points (host_big_endian w) 0
        (transformPointCloud frame_data (generatePointCloud frame_data))
        (intensityMap frame_data) (cloud_before_copy header frame_data) =
      Inr ((cloud_before_copy header frame_data)\<lparr>pc_data :=
                  concat (map (point_record (host_big_endian w))
                    (zip (transformPointCloud frame_data (generatePointCloud frame_data))
                         (intensityMap frame_data))) @
                  replicate (buffer_size frame_data - 14 * length (intensityMap frame_data)) 0\<rparr>)"
    using copy_points_fits [OF eq, of frame_data "host_big_endian w" header] fits eq by simp
  show ?thesis
    unfolding publishPointCloud_unfold Let_def copy
    using eq by (simp add: emit_def)
qed

lemma publishPointCloud_mismatch:
  assumes "length (intensityMap frame_data) \<noteq>
           length (transformPointCloud frame_data (generatePointCloud frame_data))"
  shows "publishPointCloud header frame_data w =
     w\<lparr>trace := trace w @ [Invoke pointcloud_pub, Resize (buffer_size frame_data),
            GeneratePointCloud, TransformPointCloud,
            Info ''Missmatch point and intensity data.'']\<rparr>"
  unfolding publishPointCloud_unfold Let_def using assms by (simp add: emit_def)

lemma publishPointCloud_overflow:
  assumes eq: "length (transformPointCloud frame_data (generatePointCloud frame_data)) =
               length (intensityMap frame_data)"
    and over: "buffer_size frame_data < 14 * length (intensityMap frame_data)"
  shows "publishPointCloud header frame_data w =
     w\<lparr>trace := trace w @ [Invoke pointcloud_pub, Resize (buffer_size frame_data),
            GeneratePointCloud, TransformPointCloud], fault := Some OutOfBounds\<rparr>"
proof -
  have copy: "copy_points (host_big_endian w) 0
        (transformPointCloud frame_data (generatePointCloud frame_data))
        (intensityMap frame_data) (cloud_before_copy header frame_data) = Inl OutOfBounds"
    using copy_points_too_long [OF eq, of frame_data "host_big_endian w" header] over eq by simp
  show ?thesis
    unfolding publishPointCloud_unfold Let_def copy
    using eq by (simp add: crash_def)
qed

lemma buffer_size_wide [simp]:
  "buffer_size wide_frame = 10" "buffer_size wide_frame_one_point = 10"
  by (simp_all add: buffer_size_def wide_frame_def wide_frame_one_point_def)

lemma publishPointCloud_cases:
  "(length (intensityMap frame_data) \<noteq>
      length (transformPointCloud frame_data (generatePointCloud frame_data))
    \<and> publishPointCloud header frame_data w =
        w\<lparr>trace := trace w @ [Invoke pointcloud_pub, Resize (buffer_size frame_data),
            GeneratePointCloud, TransformPointCloud,
            Info ''Missmatch point and intensity data.'']\<rparr>)
   \<or> (length (intensityMap frame_data) =
      length (transformPointCloud frame_data (generatePointCloud frame_data))
    \<and> buffer_size frame_data < 14 * length (intensityMap frame_data)
    \<and> publishPointCloud header frame_data w =
        w\<lparr>trace := trace w @ [Invoke pointcloud_pub, Resize (buffer_size frame_data),
            GeneratePointCloud, TransformPointCloud], fault := Some OutOfBounds\<rparr>)
   \<or> (length (intensityMap frame_data) =
      length (transformPointCloud frame_data (generatePointCloud frame_data))
    \<and> 14 * length (intensityMap frame_data) \<le> buffer_size frame_data
    \<and> (\<exists>m. pc_header m = header \<and> publishPointCloud header frame_data w =
        w\<lparr>trace := trace w @ [Invoke pointcloud_pub, Resize (buffer_size frame_data),
            GeneratePointCloud, TransformPointCloud,
            Publish pointcloud_pub (PointCloud2Msg m)]\<rparr>))"
proof -
  let ?ps = "transformPointCloud frame_data (generatePointCloud frame_data)"
  let ?vs = "intensityMap frame_data"
  consider (mis) "length ?vs \<noteq> length ?ps"
    | (over) "length ?ps = length ?vs" "buffer_size frame_data < 14 * length ?vs"
    | (fits) "length ?ps = length ?vs" "14 * length ?vs \<le> buffer_size frame_data"
    by fastforce
  then show ?thesis
  proof cases
    case mis
    then show ?thesis using publishPointCloud_mismatch [OF mis, of header w] by simp
  next
    case over
    then show ?thesis using publishPointCloud_overflow [OF over, of header w] by simp
  next
    case fits
    let ?m = "(cloud_before_copy header frame_data)\<lparr>pc_data :=
                  concat (map (point_record (host_big_endian w)) (zip ?ps ?vs)) @
                  replicate (buffer_size frame_data - 14 * length ?vs) 0\<rparr>"
    have "pc_header ?m = header" by (simp add: cloud_before_copy_def)
    moreover note publishPointCloud_fits [OF fits, of header w]
    ultimately have "\<exists>m. pc_header m = header \<and> publishPointCloud header frame_data w =
        w\<lparr>trace := trace w @ [Invoke pointcloud_pub, Resize (buffer_size frame_data),
            GeneratePointCloud, TransformPointCloud,
            Publish pointcloud_pub (PointCloud2Msg m)]\<rparr>"
      by (intro exI [of _ ?m] conjI)
    then show ?thesis using fits by simp
  qed
qed

lemma buffer_size_examples [simp]:
  "buffer_size example_frame = 28" "buffer_size mismatch_frame = 28"
  by (simp_all add: buffer_size_def example_frame_def mismatch_frame_def)

subsection \<open>The raster helpers\<close>

lemma length_concat_u16 [simp]: "length (concat (map (native_u16 big) vec)) = 2 * length vec"
  using length_concat_const [of "native_u16 big" 2 vec] by simp

lemma memcpy_at_start:
  "memcpy (map mem [0..<n]) 0 src =
     (if length src \<le> n then Inr (src @ map mem [length src..<n]) else Inl OutOfBounds)"
  by (simp add: memcpy_def drop_map)

lemma Vec16ToImage_eq:
  "Vec16ToImage big mem header frame_data vec =
     (if sint (height frame_data) < 0 \<or> sint (width frame_data) < 0 then Inl CvException
      else if 2 * length vec \<le> nat (sint (height frame_data)) * nat (sint (width frame_data)) * 2
      then Inr (toImageMsg big header ''16UC1'' (height frame_data) (width frame_data) 2
             (concat (map (native_u16 big) vec) @
              map mem [2 * length vec..<nat (sint (height frame_data)) * nat (sint (width frame_data)) * 2]))
      else Inl OutOfBounds)"
  by (simp add: Vec16ToImage_def cvMat_def memcpy_at_start sizeof_uint16_t_def)

lemma Vec8ToImage_eq:
  "Vec8ToImage big mem header frame_data vec =
     (if sint (height frame_data) < 0 \<or> sint (width frame_data) < 0 then Inl CvException
      else if length vec \<le> nat (sint (height frame_data)) * nat (sint (width frame_data))
      then Inr (toImageMsg big header ''8UC1'' (height frame_data) (width frame_data) 1
             (vec @ map mem [length vec..<nat (sint (height frame_data)) * nat (sint (width frame_data))]))
      else Inl OutOfBounds)"
  by (simp add: Vec8ToImage_def cvMat_def memcpy_at_start)

lemma le_product_iff:
  assumes "0 \<le> (a::int)" "0 \<le> b"
  shows "n \<le> nat a * nat b \<longleftrightarrow> int n \<le> a * b"
    and "n = nat a * nat b \<longleftrightarrow> int n = a * b"
proof -
  have "int (nat a * nat b) = a * b" using assms by simp
  then show "n \<le> nat a * nat b \<longleftrightarrow> int n \<le> a * b" and "n = nat a * nat b \<longleftrightarrow> int n = a * b"
    by linarith+
qed

subsection \<open>The entry point\<close>

lemma gate_folds:
  "(if subscribed w camera_info_pub then publishCameraInfo h f w else w) = gate h f camera_info_pub w"
  "(if subscribed w pointcloud_pub then publishPointCloud h f w else w) = gate h f pointcloud_pub w"
  "(if subscribed w depth_pub then publishDepthImage h f w else w) = gate h f depth_pub w"
  "(if subscribed w intensity_pub then publishIntensityImage h f w else w) = gate h f intensity_pub w"
  "(if subscribed w state_pub then publishStateMap h f w else w) = gate h f state_pub w"
  "(if subscribed w imu_pub then publishIMUData h f w else w) = gate h f imu_pub w"
  "(if subscribed w device_status_pub then publishDeviceStatus h f w else w) = gate h f device_status_pub w"
  "(if subscribed w io_pub then publishIOs h f w else w) = gate h f io_pub w"
  "(if subscribed w roi_pub then publishROI h f w else w) = gate h f roi_pub w"
  "(if subscribed w field_pub then publishFieldInformation h f w else w) = gate h f field_pub w"
  by (simp_all add: gate_def)

lemma publish_fold: "publish header frame_data w = fold (gate header frame_data) channels w"
  by (simp only: publish_def gate_folds Let_def channels_def fold_simps)

lemma emit_twice:
  "emit (Publish c m) (emit (Invoke c) w) = w\<lparr>trace := trace w @ [Invoke c, Publish c m]\<rparr>"
  by (simp add: emit_def)

lemma publishCameraInfo_form:
  "\<exists>m. ci_header m = header \<and> (\<forall>w. publishCameraInfo header frame_data w =
      w\<lparr>trace := trace w @ [Invoke camera_info_pub, Publish camera_info_pub (CameraInfoMsg m)]\<rparr>)"
  unfolding publishCameraInfo_def Let_def emit_twice
  apply (rule exI)
  apply (rule conjI)
   prefer 2
   apply (rule allI)
   apply (rule refl)
  apply simp
  done

lemma publishIMUData_form:
  "\<exists>m. imu_header m = header \<and> (\<forall>w. publishIMUData header frame_data w =
      w\<lparr>trace := trace w @ [Invoke imu_pub, Publish imu_pub (ImuMsg m)]\<rparr>)"
  unfolding publishIMUData_def Let_def emit_twice
  apply (rule exI)
  apply (rule conjI)
   prefer 2
   apply (rule allI)
   apply (rule refl)
  apply simp
  done

lemma publishDeviceStatus_form:
  "\<exists>m. ds_header m = header \<and> (\<forall>w. publishDeviceStatus header frame_data w =
      w\<lparr>trace := trace w @ [Invoke device_status_pub, Publish device_status_pub (DeviceStatusMsg m)]\<rparr>)"
  unfolding publishDeviceStatus_def Let_def emit_twice
  apply (rule exI)
  apply (rule conjI)
   prefer 2
   apply (rule allI)
   apply (rule refl)
  apply simp
  done

lemma publishIOs_form:
  "\<exists>m. io_header m = header \<and> (\<forall>w. publishIOs header frame_data w =
      w\<lparr>trace := trace w @ [Invoke io_pub, Publish io_pub (CameraIOMsg m)]\<rparr>)"
  unfolding publishIOs_def Let_def emit_twice
  apply (rule exI)
  apply (rule conjI)
   prefer 2
   apply (rule allI)
   apply (rule refl)
  apply simp
  done

lemma publishROI_form:
  "\<exists>m. roi_header m = header \<and> (\<forall>w. publishROI header frame_data w =
      w\<lparr>trace := trace w @ [Invoke roi_pub, Publish roi_pub (ROIArrayMsg m)]\<rparr>)"
  unfolding publishROI_def Let_def emit_twice
  apply (rule exI)
  apply (rule conjI)
   prefer 2
   apply (rule allI)
   apply (rule refl)
  apply (simp add: fold_push_roi)
  done

lemma publishFieldInformation_form:
  "\<exists>m. fia_header m = header \<and> (\<forall>w. publishFieldInformation header frame_data w =
      w\<lparr>trace := trace w @ [Invoke field_pub, Publish field_pub (FieldInformationArrayMsg m)]\<rparr>)"
  unfolding publishFieldInformation_def Let_def emit_twice
  apply (rule exI)
  apply (rule conjI)
   prefer 2
   apply (rule allI)
   apply (rule refl)
  apply (simp add: fold_push_field)
  done

lemma simple_channel_form:
  assumes "simple_channel c"
  shows "\<exists>m. msg_header m = header \<and> (\<forall>w. channel_run c header frame_data w =
      w\<lparr>trace := trace w @ [Invoke c, Publish c m]\<rparr>)"
proof (cases c)
  case camera_info_pub
  from publishCameraInfo_form [of header frame_data] obtain m where
    "ci_header m = header" "\<forall>w. publishCameraInfo header frame_data w =
      w\<lparr>trace := trace w @ [Invoke camera_info_pub, Publish camera_info_pub (CameraInfoMsg m)]\<rparr>"
    by (elim exE conjE)
  then show ?thesis unfolding camera_info_pub by (intro exI [of _ "CameraInfoMsg m"]) simp
next
  case imu_pub
  from publishIMUData_form [of header frame_data] obtain m where
    "imu_header m = header" "\<forall>w. publishIMUData header frame_data w =
      w\<lparr>trace := trace w @ [Invoke imu_pub, Publish imu_pub (ImuMsg m)]\<rparr>"
    by (elim exE conjE)
  then show ?thesis unfolding imu_pub by (intro exI [of _ "ImuMsg m"]) simp
next
  case device_status_pub
  from publishDeviceStatus_form [of header frame_data] obtain m where
    "ds_header m = header" "\<forall>w. publishDeviceStatus header frame_data w =
      w\<lparr>trace := trace w @ [Invoke device_status_pub, Publish device_status_pub (DeviceStatusMsg m)]\<rparr>"
    by (elim exE conjE)
  then show ?thesis unfolding device_status_pub by (intro exI [of _ "DeviceStatusMsg m"]) simp
next
  case io_pub
  from publishIOs_form [of header frame_data] obtain m where
    "io_header m = header" "\<forall>w. publishIOs header frame_data w =
      w\<lparr>trace := trace w @ [Invoke io_pub, Publish io_pub (CameraIOMsg m)]\<rparr>"
    by (elim exE conjE)
  then show ?thesis unfolding io_pub by (intro exI [of _ "CameraIOMsg m"]) simp
next
  case roi_pub
  from publishROI_form [of header frame_data] obtain m where
    "roi_header m = header" "\<forall>w. publishROI header frame_data w =
      w\<lparr>trace := trace w @ [Invoke roi_pub, Publish roi_pub (ROIArrayMsg m)]\<rparr>"
    by (elim exE conjE)
  then show ?thesis unfolding roi_pub by (intro exI [of _ "ROIArrayMsg m"]) simp
next
  case field_pub
  from publishFieldInformation_form [of header frame_data] obtain m where
    "fia_header m = header" "\<forall>w. publishFieldInformation header frame_data w =
      w\<lparr>trace := trace w @ [Invoke field_pub, Publish field_pub (FieldInformationArrayMsg m)]\<rparr>"
    by (elim exE conjE)
  then show ?thesis unfolding field_pub by (intro exI [of _ "FieldInformationArrayMsg m"]) simp
qed (use assms in \<open>simp_all add: simple_channel_def\<close>)

lemma raster_channel_form:
  assumes "c = depth_pub \<or> c = intensity_pub \<or> c = state_pub"
  shows "channel_run c header frame_data w =
     (case raster_result c (host_big_endian w) (uninitialised w c) header frame_data of
        Inl e \<Rightarrow> w\<lparr>trace := trace w @ [Invoke c], fault := Some e\<rparr>
      | Inr img \<Rightarrow> w\<lparr>trace := trace w @ [Invoke c, Publish c (ImageMsg img)]\<rparr>)"
  using assms
  by (auto simp add: raster_result_def publishDepthImage_def publishIntensityImage_def
      publishStateMap_def emit_def crash_def Let_def split: sum.splits)

lemma raster_result_header:
  "raster_result c big mem header frame_data = Inr img \<Longrightarrow> img_header img = header"
  by (auto simp add: raster_result_def Vec16ToImage_eq Vec8ToImage_eq toImageMsg_def
      split: if_splits)

lemma blank_world_simps [simp]:
  "trace (blank_world big mem) = []" "fault (blank_world big mem) = None"
  "host_big_endian (blank_world big mem) = big" "uninitialised (blank_world big mem) = mem"
  by (simp_all add: blank_world_def)

lemma simple_channel_effect:
  assumes "simple_channel c"
  shows "\<exists>m. msg_header m = header \<and>
           (\<forall>big mem. channel_effect c header frame_data big mem = ([Invoke c, Publish c m], None))
         \<and> (\<forall>w. channel_run c header frame_data w =
                w\<lparr>trace := trace w @ [Invoke c, Publish c m]\<rparr>)"
proof -
  from simple_channel_form [OF assms, of header frame_data] obtain m where
    m: "msg_header m = header"
       "\<forall>w. channel_run c header frame_data w = w\<lparr>trace := trace w @ [Invoke c, Publish c m]\<rparr>"
    by (elim exE conjE)
  have "\<forall>big mem. channel_effect c header frame_data big mem = ([Invoke c, Publish c m], None)"
    by (simp add: channel_effect_def m(2))
  then show ?thesis using m by (intro exI [of _ m] conjI)
qed

lemma raster_channel_effect:
  assumes "c = depth_pub \<or> c = intensity_pub \<or> c = state_pub"
  shows "channel_effect c header frame_data big mem =
     (case raster_result c big (mem c) header frame_data of
        Inl e \<Rightarrow> ([Invoke c], Some e)
      | Inr img \<Rightarrow> ([Invoke c, Publish c (ImageMsg img)], None))"
  by (simp add: channel_effect_def raster_channel_form [OF assms] split: sum.splits)

lemma publishPointCloud_effect:
  "publishPointCloud header frame_data w =
     w\<lparr>trace := trace w @ fst (cloud_effect (host_big_endian w) header frame_data),
       fault := (case snd (cloud_effect (host_big_endian w) header frame_data) of
                   None \<Rightarrow> fault w | Some e \<Rightarrow> Some e)\<rparr>"
proof -
  let ?ps = "transformPointCloud frame_data (generatePointCloud frame_data)"
  let ?vs = "intensityMap frame_data"
  consider (mis) "length ?vs \<noteq> length ?ps"
    | (over) "length ?ps = length ?vs" "buffer_size frame_data < 14 * length ?vs"
    | (fits) "length ?ps = length ?vs" "14 * length ?vs \<le> buffer_size frame_data"
    by fastforce
  then show ?thesis
  proof cases
    case mis
    then show ?thesis by (simp add: publishPointCloud_mismatch [OF mis] cloud_effect_def)
  next
    case over
    then show ?thesis by (simp add: publishPointCloud_overflow [OF over] cloud_effect_def)
  next
    case fits
    then show ?thesis
      by (simp add: publishPointCloud_fits [OF fits] cloud_effect_def packed_cloud_def)
  qed
qed

lemma cloud_channel_effect:
  "channel_effect pointcloud_pub header frame_data big mem = cloud_effect big header frame_data"
  by (cases "cloud_effect big header frame_data")
     (simp add: channel_effect_def publishPointCloud_effect split: option.splits)

lemma channel_cases:
  obtains (simple) "simple_channel c" | (cloud) "c = pointcloud_pub"
  | (raster) "c = depth_pub \<or> c = intensity_pub \<or> c = state_pub"
  by (auto simp: simple_channel_def)

lemma channel_run_local:
  "channel_run c header frame_data w =
     w\<lparr>trace := trace w @ fst (channel_effect c header frame_data (host_big_endian w) (uninitialised w)),
       fault := (case snd (channel_effect c header frame_data (host_big_endian w) (uninitialised w)) of
                   None \<Rightarrow> fault w | Some e \<Rightarrow> Some e)\<rparr>"
proof (cases c rule: channel_cases)
  case simple
  from simple_channel_effect [OF simple, of header frame_data] obtain m where
    "\<forall>big mem. channel_effect c header frame_data big mem = ([Invoke c, Publish c m], None)"
    "\<forall>w. channel_run c header frame_data w = w\<lparr>trace := trace w @ [Invoke c, Publish c m]\<rparr>"
    by (elim exE conjE)
  then show ?thesis by simp
next
  case cloud
  show ?thesis unfolding cloud cloud_channel_effect
    by (simp only: channel_run.simps publishPointCloud_effect)
next
  case raster
  show ?thesis
    by (simp add: raster_channel_effect [OF raster] raster_channel_form [OF raster]
        split: sum.splits)
qed

lemma fold_gate_faulted: "fault w \<noteq> None \<Longrightarrow> fold (gate header frame_data) cs w = w"
  by (induction cs) (auto simp add: gate_def subscribed_def)

lemma fold_gate_run:
  assumes "fault w = None"
  shows "fold (gate header frame_data) cs w =
     w\<lparr>trace := trace w @ fst (run_channels cs header frame_data (getNumSubscribers w)
                                (host_big_endian w) (uninitialised w)),
       fault := snd (run_channels cs header frame_data (getNumSubscribers w)
                                (host_big_endian w) (uninitialised w))\<rparr>"
  using assms
proof (induction cs arbitrary: w)
  case Nil
  then show ?case by simp
next
  case (Cons c cs)
  let ?E = "channel_effect c header frame_data (host_big_endian w) (uninitialised w)"
  show ?case
  proof (cases "0 < getNumSubscribers w c")
    case False
    then have "gate header frame_data c w = w" by (simp add: gate_def subscribed_def)
    then show ?thesis using False Cons.IH [OF Cons.prems] by simp
  next
    case True
    then have g: "gate header frame_data c w = channel_run c header frame_data w"
      using Cons.prems by (simp add: gate_def subscribed_def)
    obtain evs fl where E: "?E = (evs, fl)" by (cases ?E)
    show ?thesis
    proof (cases fl)
      case None
      let ?w1 = "w\<lparr>trace := trace w @ evs\<rparr>"
      have w1: "channel_run c header frame_data w = ?w1"
        using Cons.prems by (simp add: channel_run_local E None)
      have "fault ?w1 = None" using Cons.prems by simp
      from Cons.IH [OF this] show ?thesis
        using True by (simp add: g w1 E None split: prod.splits)
    next
      case (Some e)
      let ?w1 = "w\<lparr>trace := trace w @ evs, fault := Some e\<rparr>"
      have w1: "channel_run c header frame_data w = ?w1"
        by (simp add: channel_run_local E Some)
      have "fold (gate header frame_data) cs ?w1 = ?w1"
        by (rule fold_gate_faulted) simp
      then show ?thesis using True by (simp add: g w1 E Some)
    qed
  qed
qed

lemma publish_run:
  assumes "fault w = None"
  shows "publish header frame_data w =
     w\<lparr>trace := trace w @ fst (run_channels channels header frame_data (getNumSubscribers w)
                                (host_big_endian w) (uninitialised w)),
       fault := snd (run_channels channels header frame_data (getNumSubscribers w)
                                (host_big_endian w) (uninitialised w))\<rparr>"
  unfolding publish_fold by (rule fold_gate_run [OF assms])

lemma publish_faulted: "fault w \<noteq> None \<Longrightarrow> publish header frame_data w = w"
  unfolding publish_fold by (rule fold_gate_faulted)

lemma channel_effect_props:
  fixes c header frame_data big mem
  defines "E \<equiv> channel_effect c header frame_data big mem"
  shows "Invoke c \<in> set (fst E)"
    and "\<forall>e \<in> set (fst E). event_channel e = c"
    and "\<forall>c' m. Publish c' m \<in> set (fst E) \<longrightarrow> msg_header m = header"
    and "snd E = None \<longrightarrow> (c = pointcloud_pub \<and> mismatch frame_data) \<or> (\<exists>m. Publish c m \<in> set (fst E))"
    and "c = pointcloud_pub \<longrightarrow> (\<forall>m. Publish c m \<in> set (fst E) \<longrightarrow> \<not> mismatch frame_data)"
proof -
  have "Invoke c \<in> set (fst E)
    \<and> (\<forall>e \<in> set (fst E). event_channel e = c)
    \<and> (\<forall>c' m. Publish c' m \<in> set (fst E) \<longrightarrow> msg_header m = header)
    \<and> (snd E = None \<longrightarrow> (c = pointcloud_pub \<and> mismatch frame_data) \<or> (\<exists>m. Publish c m \<in> set (fst E)))
    \<and> (c = pointcloud_pub \<longrightarrow> (\<forall>m. Publish c m \<in> set (fst E) \<longrightarrow> \<not> mismatch frame_data))"
  proof (cases c rule: channel_cases)
    case simple
    from simple_channel_effect [OF simple, of header frame_data] obtain m where
      "msg_header m = header"
      "\<forall>big mem. channel_effect c header frame_data big mem = ([Invoke c, Publish c m], None)"
      by (elim exE conjE)
    then show ?thesis using simple by (auto simp add: E_def simple_channel_def)
  next
    case cloud
    show ?thesis
      unfolding E_def cloud cloud_channel_effect
      by (simp add: cloud_effect_def mismatch_def packed_cloud_def cloud_before_copy_def)
  next
    case raster
    show ?thesis
    proof (cases "raster_result c big (mem c) header frame_data")
      case (Inl e)
      then show ?thesis using raster by (auto simp add: E_def raster_channel_effect [OF raster])
    next
      case (Inr img)
      then show ?thesis using raster raster_result_header [OF Inr]
        by (auto simp add: E_def raster_channel_effect [OF raster])
    qed
  qed
  then show "Invoke c \<in> set (fst E)"
    and "\<forall>e \<in> set (fst E). event_channel e = c"
    and "\<forall>c' m. Publish c' m \<in> set (fst E) \<longrightarrow> msg_header m = header"
    and "snd E = None \<longrightarrow> (c = pointcloud_pub \<and> mismatch frame_data) \<or> (\<exists>m. Publish c m \<in> set (fst E))"
    and "c = pointcloud_pub \<longrightarrow> (\<forall>m. Publish c m \<in> set (fst E) \<longrightarrow> \<not> mismatch frame_data)"
    by blast+
qed

lemma run_channels_Cons_cases:
  obtains (skip) "\<not> 0 < subs c"
      "run_channels (c # cs) header frame_data subs big mem =
       run_channels cs header frame_data subs big mem"
  | (stop) evs e where "0 < subs c" "channel_effect c header frame_data big mem = (evs, Some e)"
      "run_channels (c # cs) header frame_data subs big mem = (evs, Some e)"
  | (go) evs where "0 < subs c" "channel_effect c header frame_data big mem = (evs, None)"
      "run_channels (c # cs) header frame_data subs big mem =
       (evs @ fst (run_channels cs header frame_data subs big mem),
        snd (run_channels cs header frame_data subs big mem))"
proof (cases "0 < subs c")
  case False
  then show ?thesis using skip by simp
next
  case True
  obtain evs fl where E: "channel_effect c header frame_data big mem = (evs, fl)"
    by (cases "channel_effect c header frame_data big mem")
  show ?thesis
  proof (cases fl)
    case None
    then show ?thesis using go [of evs] True E by (simp split: prod.splits)
  next
    case (Some e)
    then show ?thesis using stop [of evs e] True E by simp
  qed
qed

lemma run_channels_events:
  "\<forall>e \<in> set (fst (run_channels cs header frame_data subs big mem)).
     event_channel e \<in> set cs \<and> 0 < subs (event_channel e)"
proof (induction cs)
  case Nil
  show ?case by simp
next
  case (Cons c cs)
  show ?case
  proof (cases rule: run_channels_Cons_cases [of subs c cs header frame_data big mem])
    case skip
    then show ?thesis using Cons.IH by simp
  next
    case (stop evs e)
    then show ?thesis using channel_effect_props(2) [of c header frame_data big mem] by simp
  next
    case (go evs)
    then show ?thesis using channel_effect_props(2) [of c header frame_data big mem] Cons.IH
      by auto
  qed
qed

lemma run_channels_headers:
  "\<forall>c m. Publish c m \<in> set (fst (run_channels cs header frame_data subs big mem)) \<longrightarrow>
     msg_header m = header"
proof (induction cs)
  case Nil
  show ?case by simp
next
  case (Cons c cs)
  show ?case
  proof (cases rule: run_channels_Cons_cases [of subs c cs header frame_data big mem])
    case skip
    then show ?thesis using Cons.IH by simp
  next
    case (stop evs e)
    then show ?thesis using channel_effect_props(3) [of c header frame_data big mem] by simp
  next
    case (go evs)
    then show ?thesis using channel_effect_props(3) [of c header frame_data big mem] Cons.IH
      by auto
  qed
qed

lemma run_channels_complete:
  assumes "snd (run_channels cs header frame_data subs big mem) = None"
    and "c \<in> set cs" and "0 < subs c"
  shows "Invoke c \<in> set (fst (run_channels cs header frame_data subs big mem))
       \<and> ((c = pointcloud_pub \<and> mismatch frame_data)
          \<or> (\<exists>m. Publish c m \<in> set (fst (run_channels cs header frame_data subs big mem))))"
  using assms
proof (induction cs)
  case Nil
  then show ?case by simp
next
  case (Cons a cs)
  show ?case
  proof (cases rule: run_channels_Cons_cases [of subs a cs header frame_data big mem])
    case skip
    then have "c \<in> set cs" using Cons.prems by auto
    then show ?thesis using skip Cons.IH Cons.prems by simp
  next
    case (stop evs e)
    then show ?thesis using Cons.prems(1) by simp
  next
    case (go evs)
    then have rest: "snd (run_channels cs header frame_data subs big mem) = None"
      using Cons.prems(1) by simp
    show ?thesis
    proof (cases "c = a")
      case True
      then show ?thesis
        using go channel_effect_props(1,4) [of a header frame_data big mem] by auto
    next
      case False
      then have "c \<in> set cs" using Cons.prems by auto
      from Cons.IH [OF rest this Cons.prems(3)] show ?thesis using go by auto
    qed
  qed
qed

lemma run_channels_cloud_published:
  "\<forall>m. Publish pointcloud_pub m \<in> set (fst (run_channels cs header frame_data subs big mem)) \<longrightarrow>
     \<not> mismatch frame_data"
proof (induction cs)
  case Nil
  show ?case by simp
next
  case (Cons c cs)
  have own: "\<And>evs fl m. channel_effect c header frame_data big mem = (evs, fl) \<Longrightarrow>
      Publish pointcloud_pub m \<in> set evs \<Longrightarrow> \<not> mismatch frame_data"
  proof -
    fix evs fl m
    assume E: "channel_effect c header frame_data big mem = (evs, fl)"
      and P: "Publish pointcloud_pub m \<in> set evs"
    have "event_channel (Publish pointcloud_pub m) = c"
      using channel_effect_props(2) [of c header frame_data big mem] E P by auto
    then have "c = pointcloud_pub" by simp
    then show "\<not> mismatch frame_data"
      using channel_effect_props(5) [of c header frame_data big mem] E P by auto
  qed
  show ?case
  proof (cases rule: run_channels_Cons_cases [of subs c cs header frame_data big mem])
    case skip
    then show ?thesis using Cons.IH by simp
  next
    case (stop evs e)
    then show ?thesis using own by auto
  next
    case (go evs)
    then show ?thesis using own Cons.IH by auto
  qed
qed

lemma all_channels [simp]: "c \<in> set channels"
  by (cases c) (simp_all add: channels_def)


lemma run_channels_no_fault:
  assumes "snd (run_channels cs header frame_data subs big mem) = None"
    and "c \<in> set cs" and "0 < subs c"
  shows "snd (channel_effect c header frame_data big mem) = None"
  using assms
proof (induction cs)
  case Nil
  then show ?case by simp
next
  case (Cons a cs)
  show ?case
  proof (cases rule: run_channels_Cons_cases [of subs a cs header frame_data big mem])
    case skip
    then have "c \<in> set cs" using Cons.prems by auto
    then show ?thesis using skip Cons.IH Cons.prems by simp
  next
    case (stop evs e)
    then show ?thesis using Cons.prems(1) by simp
  next
    case (go evs)
    then have rest: "snd (run_channels cs header frame_data subs big mem) = None"
      using Cons.prems(1) by simp
    show ?thesis
    proof (cases "c = a")
      case True
      then show ?thesis using go by simp
    next
      case False
      then have "c \<in> set cs" using Cons.prems by auto
      from Cons.IH [OF rest this Cons.prems(3)] show ?thesis .
    qed
  qed
qed

lemma raster_result_filled:
  assumes "raster_result c big mem header frame_data = Inr img"
    and "int (source_length c frame_data) = sint (height frame_data) * sint (width frame_data)"
  shows "raster_result c big mem' header frame_data = Inr img"
proof -
  let ?h = "sint (height frame_data)" and ?w = "sint (width frame_data)"
  have nn: "0 \<le> ?h" "0 \<le> ?w"
    using assms(1) by (auto simp add: raster_result_def Vec16ToImage_eq Vec8ToImage_eq split: if_splits)
  have n: "source_length c frame_data = nat ?h * nat ?w"
    using le_product_iff(2) [OF nn] assms(2) by simp
  show ?thesis
    using assms(1) nn n
    by (auto simp add: raster_result_def source_length_def Vec16ToImage_eq Vec8ToImage_eq
        mult.commute split: if_splits)
qed

lemma channel_effect_mem:
  assumes "snd (channel_effect c header frame_data big mem) = None"
    and "c = depth_pub \<or> c = intensity_pub \<or> c = state_pub \<longrightarrow>
         int (source_length c frame_data) = sint (height frame_data) * sint (width frame_data)"
  shows "channel_effect c header frame_data big mem' = channel_effect c header frame_data big mem"
proof (cases c rule: channel_cases)
  case simple
  from simple_channel_effect [OF simple, of header frame_data] obtain m where
    "\<forall>big mem. channel_effect c header frame_data big mem = ([Invoke c, Publish c m], None)"
    by (elim exE conjE)
  then show ?thesis by simp
next
  case cloud
  then show ?thesis by (simp add: cloud_channel_effect)
next
  case raster
  show ?thesis
  proof (cases "raster_result c big (mem c) header frame_data")
    case (Inl e)
    then show ?thesis using assms(1) by (simp add: raster_channel_effect [OF raster])
  next
    case (Inr img)
    from raster_result_filled [OF Inr, of "mem' c"] assms(2) raster
    have "raster_result c big (mem' c) header frame_data = Inr img" by blast
    then show ?thesis using Inr by (simp add: raster_channel_effect [OF raster])
  qed
qed

lemma run_channels_mem:
  assumes "snd (run_channels cs header frame_data subs big mem) = None"
    and "\<forall>c. 0 < subs c \<and> (c = depth_pub \<or> c = intensity_pub \<or> c = state_pub) \<longrightarrow>
         int (source_length c frame_data) = sint (height frame_data) * sint (width frame_data)"
  shows "run_channels cs header frame_data subs big mem' =
         run_channels cs header frame_data subs big mem"
  using assms(1)
proof (induction cs)
  case Nil
  show ?case by simp
next
  case (Cons c cs)
  show ?case
  proof (cases rule: run_channels_Cons_cases [of subs c cs header frame_data big mem])
    case skip
    then show ?thesis using Cons by simp
  next
    case (stop evs e)
    then show ?thesis using Cons.prems by simp
  next
    case (go evs)
    then have rest: "snd (run_channels cs header frame_data subs big mem) = None"
      using Cons.prems by simp
    have "channel_effect c header frame_data big mem' = channel_effect c header frame_data big mem"
      by (rule channel_effect_mem) (use go assms(2) in auto)
    then show ?thesis using go Cons.IH [OF rest] by simp
  qed
qed

lemma run_channels_gate:
  fixes header frame_data subs big mem
  defines "R \<equiv> run_channels channels header frame_data subs big mem"
  shows "\<forall>c. subs c = 0 \<longrightarrow> events_on c (fst R) = []"
    and "snd R = None \<longrightarrow> (\<forall>c. Invoke c \<in> set (fst R) \<longleftrightarrow> 0 < subs c)"
    and "snd R = None \<longrightarrow>
           (\<forall>c. (\<exists>m. Publish c m \<in> set (fst R)) \<longleftrightarrow>
                 0 < subs c \<and> (c = pointcloud_pub \<longrightarrow> \<not> mismatch frame_data))"
proof -
  have only: "\<And>e. e \<in> set (fst R) \<Longrightarrow> 0 < subs (event_channel e)"
    using run_channels_events [of channels header frame_data subs big mem]
    unfolding R_def by blast
  show "\<forall>c. subs c = 0 \<longrightarrow> events_on c (fst R) = []"
  proof (intro allI impI)
    fix c assume z: "subs c = 0"
    have "\<And>e. e \<in> set (fst R) \<Longrightarrow> event_channel e \<noteq> c"
      using only z by fastforce
    then show "events_on c (fst R) = []"
      unfolding events_on_def filter_empty_conv by blast
  qed
  show "snd R = None \<longrightarrow> (\<forall>c. Invoke c \<in> set (fst R) \<longleftrightarrow> 0 < subs c)"
  proof (intro allI impI)
    fix c assume nf: "snd R = None"
    show "Invoke c \<in> set (fst R) \<longleftrightarrow> 0 < subs c"
    proof
      assume "Invoke c \<in> set (fst R)"
      from only [OF this] show "0 < subs c" by simp
    next
      assume "0 < subs c"
      with run_channels_complete [of channels header frame_data subs big mem c] nf
      show "Invoke c \<in> set (fst R)" unfolding R_def by simp
    qed
  qed
  show "snd R = None \<longrightarrow>
           (\<forall>c. (\<exists>m. Publish c m \<in> set (fst R)) \<longleftrightarrow>
                 0 < subs c \<and> (c = pointcloud_pub \<longrightarrow> \<not> mismatch frame_data))"
  proof (intro allI impI)
    fix c assume nf: "snd R = None"
    show "(\<exists>m. Publish c m \<in> set (fst R)) \<longleftrightarrow>
                 0 < subs c \<and> (c = pointcloud_pub \<longrightarrow> \<not> mismatch frame_data)"
    proof
      assume "\<exists>m. Publish c m \<in> set (fst R)"
      then obtain m where m: "Publish c m \<in> set (fst R)" ..
      from only [OF m] have "0 < subs c" by simp
      moreover have "c = pointcloud_pub \<longrightarrow> \<not> mismatch frame_data"
        using m run_channels_cloud_published [of channels header frame_data subs big mem]
        unfolding R_def by blast
      ultimately show "0 < subs c \<and> (c = pointcloud_pub \<longrightarrow> \<not> mismatch frame_data)" ..
    next
      assume c: "0 < subs c \<and> (c = pointcloud_pub \<longrightarrow> \<not> mismatch frame_data)"
      then have "0 < subs c" ..
      with run_channels_complete [of channels header frame_data subs big mem c] nf
      have "(c = pointcloud_pub \<and> mismatch frame_data) \<or> (\<exists>m. Publish c m \<in> set (fst R))"
        unfolding R_def by simp
      with c show "\<exists>m. Publish c m \<in> set (fst R)" by blast
    qed
  qed
qed

lemmas raster_effects =
  raster_channel_effect [of depth_pub, simplified]
  raster_channel_effect [of intensity_pub, simplified]
  raster_channel_effect [of state_pub, simplified]

lemma cloud_only_world_simps [simp]:
  "getNumSubscribers cloud_only_world = (\<lambda>c. if c = pointcloud_pub then 1 else 0)"
  "host_big_endian cloud_only_world = False"
  "trace cloud_only_world = []" "fault cloud_only_world = None"
  by (simp_all add: cloud_only_world_def example_world_def)

lemma cloud_only_run:
  "publish example_header example_frame cloud_only_world =
     cloud_only_world\<lparr>trace := [Invoke pointcloud_pub, Resize 28, GeneratePointCloud,
        TransformPointCloud,
        Publish pointcloud_pub (PointCloud2Msg (packed_cloud False example_header example_frame))]\<rparr>"
proof -
  have f: "fault cloud_only_world = None" by (simp add: cloud_only_world_def example_world_def)
  have l: "length (intensityMap example_frame) = 2"
    "length (transformPointCloud example_frame (generatePointCloud example_frame)) = 2"
    by (simp_all add: example_frame_def)
  show ?thesis
    unfolding publish_run [OF f]
    by (simp add: channels_def cloud_channel_effect cloud_effect_def l)
qed

lemma cloud_only_mismatch_run:
  "publish example_header mismatch_frame cloud_only_world =
     cloud_only_world\<lparr>trace := [Invoke pointcloud_pub, Resize 28, GeneratePointCloud,
        TransformPointCloud, Info ''Missmatch point and intensity data.'']\<rparr>"
proof -
  have f: "fault cloud_only_world = None" by (simp add: cloud_only_world_def example_world_def)
  have l: "length (intensityMap mismatch_frame) = 1"
    "length (transformPointCloud mismatch_frame (generatePointCloud mismatch_frame)) = 2"
    by (simp_all add: mismatch_frame_def example_frame_def)
  show ?thesis
    unfolding publish_run [OF f]
    by (simp add: channels_def cloud_channel_effect cloud_effect_def l)
qed

lemma depth_only_world_simps [simp]:
  "getNumSubscribers depth_only_world = (\<lambda>c. if c = depth_pub then 1 else 0)"
  "host_big_endian depth_only_world = False"
  "uninitialised depth_only_world = (\<lambda>c i. 0xAA)"
  "trace depth_only_world = []" "fault depth_only_world = None"
  by (simp_all add: depth_only_world_def example_world_def)

lemma depth_only_run:
  "0 \<le> sint (height frame_data) \<Longrightarrow> 0 \<le> sint (width frame_data) \<Longrightarrow>
   2 * length (distanceMap frame_data) \<le> nat (sint (height frame_data)) * nat (sint (width frame_data)) * 2 \<Longrightarrow>
   getNumSubscribers w = (\<lambda>c. if c = depth_pub then 1 else 0) \<Longrightarrow> fault w = None \<Longrightarrow>
   publish header frame_data w =
     w\<lparr>trace := trace w @ [Invoke depth_pub, Publish depth_pub (ImageMsg
         (toImageMsg (host_big_endian w) header ''16UC1'' (height frame_data) (width frame_data) 2
            (concat (map (native_u16 (host_big_endian w)) (distanceMap frame_data)) @
             map (uninitialised w depth_pub)
               [2 * length (distanceMap frame_data)..<
                nat (sint (height frame_data)) * nat (sint (width frame_data)) * 2])))]\<rparr>"
  by (simp add: publish_run channels_def raster_effects raster_result_def Vec16ToImage_eq)

lemma images_world_simps [simp]:
  "getNumSubscribers images_world =
     (\<lambda>c. if c = depth_pub \<or> c = intensity_pub \<or> c = state_pub then 1 else 0)"
  "host_big_endian images_world = False"
  "uninitialised images_world = (\<lambda>c i. 0xAA)"
  "trace images_world = []" "fault images_world = None"
  by (simp_all add: images_world_def example_world_def)

lemma images_run:
  "publish example_header example_frame images_world =
     images_world\<lparr>trace :=
       [Invoke depth_pub,
        Publish depth_pub (ImageMsg
          \<lparr>img_header = example_header, img_height = 1, img_width = 2, img_encoding = ''16UC1'',
           img_is_bigendian = False, img_step = 4, img_data = [1, 0, 2, 0]\<rparr>),
        Invoke intensity_pub,
        Publish intensity_pub (ImageMsg
          \<lparr>img_header = example_header, img_height = 1, img_width = 2, img_encoding = ''16UC1'',
           img_is_bigendian = False, img_step = 4, img_data = [2, 1, 4, 3]\<rparr>),
        Invoke state_pub,
        Publish state_pub (ImageMsg
          \<lparr>img_header = example_header, img_height = 1, img_width = 2, img_encoding = ''8UC1'',
           img_is_bigendian = False, img_step = 2, img_data = [1, 2]\<rparr>)]\<rparr>"
proof -
  have f: "fault images_world = None" by simp
  have vals: "height example_frame = 1" "width example_frame = 2"
    "distanceMap example_frame = [1, 2]" "intensityMap example_frame = [0x0102, 0x0304]"
    "stateMap example_frame = [1, 2]"
    by (simp_all add: example_frame_def)
  show ?thesis
    unfolding publish_run [OF f]
    by (simp add: channels_def raster_effects raster_result_def Vec16ToImage_eq Vec8ToImage_eq
        vals toImageMsg_def native_u16_def)
qed



section \<open>The claims\<close>

text \<open>
  C5. The calibration message carries the frame's height and width, the distortion vector
  \<open>[k1, k2, p1, p2, k3]\<close> (five entries), and a projection array of nine entries with
  \<open>fx\<close>, \<open>cx\<close>, \<open>fy\<close>, \<open>cy\<close> and 1 at positions 0, 2, 4, 5 and 8 and zero at
  every other position.
\<close>

theorem camera_info_contents:
  "\<exists>m. trace (publishCameraInfo header frame_data w) =
          trace w @ [Invoke camera_info_pub, Publish camera_info_pub (CameraInfoMsg m)]
     \<and> D m = [k1 (cameraParameters frame_data), k2 (cameraParameters frame_data),
              p1 (cameraParameters frame_data), p2 (cameraParameters frame_data),
              k3 (cameraParameters frame_data)]
     \<and> K m = [fx (cameraParameters frame_data), double_0, cx (cameraParameters frame_data),
              double_0, fy (cameraParameters frame_data), cy (cameraParameters frame_data),
              double_0, double_0, double_1]
     \<and> ci_height m = height frame_data \<and> ci_width m = width frame_data"
  by (simp add: publishCameraInfo_def emit_def CameraInfo_init_def Let_def numeral_eq_Suc)

text \<open>
  C6. The region-of-interest message has one entry for each entry of the frame's list, in
  the same order, and entry \<open>i\<close> is the structural copy of input entry \<open>i\<close>; likewise the
  field-evaluation message and the frame's field list.
\<close>

theorem roi_and_field_lists_copied:
  "(\<exists>m. trace (publishROI header frame_data w) =
          trace w @ [Invoke roi_pub, Publish roi_pub (ROIArrayMsg m)]
     \<and> length (rois m) = length (roiData frame_data)
     \<and> (\<forall>i < length (roiData frame_data). roi_copied (roiData frame_data ! i) (rois m ! i)))
   \<and> (\<exists>n. trace (publishFieldInformation header frame_data w) =
          trace w @ [Invoke field_pub, Publish field_pub (FieldInformationArrayMsg n)]
     \<and> length (fia_fields n) = length (fieldInformation frame_data)
     \<and> (\<forall>i < length (fieldInformation frame_data).
           field_copied (fieldInformation frame_data ! i) (fia_fields n ! i)))"
proof (rule conjI)
  let ?m = "\<lparr>roi_header = header,
             rois = map (\<lambda>r. last (rois (push_roi r \<lparr>roi_header = header, rois = []\<rparr>)))
                      (roiData frame_data)\<rparr>"
  have "trace (publishROI header frame_data w) =
          trace w @ [Invoke roi_pub, Publish roi_pub (ROIArrayMsg ?m)]"
    by (simp add: publishROI_def emit_def Let_def fold_push_roi)
  moreover have "length (rois ?m) = length (roiData frame_data)"
    by simp
  moreover have "\<forall>i < length (roiData frame_data). roi_copied (roiData frame_data ! i) (rois ?m ! i)"
    by (simp add: roi_copied_def push_roi_def)
  ultimately show "\<exists>m. trace (publishROI header frame_data w) =
          trace w @ [Invoke roi_pub, Publish roi_pub (ROIArrayMsg m)]
     \<and> length (rois m) = length (roiData frame_data)
     \<and> (\<forall>i < length (roiData frame_data). roi_copied (roiData frame_data ! i) (rois m ! i))"
    by (intro exI [of _ ?m] conjI)
next
  let ?n = "\<lparr>fia_header = header,
             fia_fields = map (\<lambda>r. last (fia_fields (push_field r \<lparr>fia_header = header, fia_fields = []\<rparr>)))
                      (fieldInformation frame_data)\<rparr>"
  have "trace (publishFieldInformation header frame_data w) =
          trace w @ [Invoke field_pub, Publish field_pub (FieldInformationArrayMsg ?n)]"
    by (simp add: publishFieldInformation_def emit_def Let_def fold_push_field)
  moreover have "length (fia_fields ?n) = length (fieldInformation frame_data)"
    by simp
  moreover have "\<forall>i < length (fieldInformation frame_data).
      field_copied (fieldInformation frame_data ! i) (fia_fields ?n ! i)"
    by (simp add: field_copied_def push_field_def)
  ultimately show "\<exists>n. trace (publishFieldInformation header frame_data w) =
          trace w @ [Invoke field_pub, Publish field_pub (FieldInformationArrayMsg n)]
     \<and> length (fia_fields n) = length (fieldInformation frame_data)
     \<and> (\<forall>i < length (fieldInformation frame_data).
           field_copied (fieldInformation frame_data ! i) (fia_fields n ! i))"
    by (intro exI [of _ ?n] conjI)
qed

theorem roi_and_field_lists_copied_witness:
  "(1::nat) < length (roiData example_frame)
   \<and> (\<exists>m. trace (publishROI example_header example_frame example_world) =
            trace example_world @ [Invoke roi_pub, Publish roi_pub (ROIArrayMsg m)]
        \<and> length (rois m) = 2 \<and> id_roi (rois m ! 1) = 9 \<and> distance_value (rois m ! 1) = 720
        \<and> quality_class (safety_data (rois m ! 1)) = 1)
   \<and> (0::nat) < length (fieldInformation example_frame)
   \<and> (\<exists>n. trace (publishFieldInformation example_header example_frame example_world) =
            trace example_world @ [Invoke field_pub, Publish field_pub (FieldInformationArrayMsg n)]
        \<and> length (fia_fields n) = 2 \<and> field_id (fia_fields n ! 0) = 3
        \<and> eval_method (fia_fields n ! 0) = 0)"
proof -
  have l1: "(1::nat) < length (roiData example_frame)"
    and l2: "(0::nat) < length (fieldInformation example_frame)"
    by (simp_all add: example_frame_def)
  note inst = roi_and_field_lists_copied [of example_header example_frame example_world]
  from inst [THEN conjunct1] obtain m where
    m: "trace (publishROI example_header example_frame example_world) =
          trace example_world @ [Invoke roi_pub, Publish roi_pub (ROIArrayMsg m)]"
       "length (rois m) = length (roiData example_frame)"
       "\<forall>i < length (roiData example_frame). roi_copied (roiData example_frame ! i) (rois m ! i)"
    by (elim exE conjE)
  from inst [THEN conjunct2] obtain n where
    n: "trace (publishFieldInformation example_header example_frame example_world) =
          trace example_world @ [Invoke field_pub, Publish field_pub (FieldInformationArrayMsg n)]"
       "length (fia_fields n) = length (fieldInformation example_frame)"
       "\<forall>i < length (fieldInformation example_frame).
          field_copied (fieldInformation example_frame ! i) (fia_fields n ! i)"
    by (elim exE conjE)
  have r: "roi_copied (roiData example_frame ! 1) (rois m ! 1)"
    using m(3) [rule_format, of 1] l1 by simp
  have f: "field_copied (fieldInformation example_frame ! 0) (fia_fields n ! 0)"
    using n(3) [rule_format, of 0] l2 by simp
  have "\<exists>m. trace (publishROI example_header example_frame example_world) =
            trace example_world @ [Invoke roi_pub, Publish roi_pub (ROIArrayMsg m)]
        \<and> length (rois m) = 2 \<and> id_roi (rois m ! 1) = 9 \<and> distance_value (rois m ! 1) = 720
        \<and> quality_class (safety_data (rois m ! 1)) = 1"
    using m(1,2) r by (intro exI [of _ m]) (simp add: roi_copied_def example_frame_def)
  moreover have "\<exists>n. trace (publishFieldInformation example_header example_frame example_world) =
            trace example_world @ [Invoke field_pub, Publish field_pub (FieldInformationArrayMsg n)]
        \<and> length (fia_fields n) = 2 \<and> field_id (fia_fields n ! 0) = 3
        \<and> eval_method (fia_fields n ! 0) = 0"
    using n(1,2) f by (intro exI [of _ n]) (simp add: field_copied_def example_frame_def)
  ultimately show ?thesis using l1 l2 by (intro conjI)
qed

text \<open>
  C1 (amended). When the point list, the intensity map and height \<times> width have the same
  length \<open>n\<close>, and 14 \<times> \<open>n\<close> fits in 32 bits, the routine publishes a buffer of exactly
  14 \<times> \<open>n\<close> bytes, with point step 14 and field offsets 0, 4, 8 and 12; bytes
  \<open>[14i, 14i + 12)\<close> are the object representation of the three coordinates of point \<open>i\<close>
  and bytes \<open>[14i + 12, 14i + 14)\<close> that of intensity sample \<open>i\<close>.
\<close>

theorem point_cloud_layout:
  assumes "length (transformPointCloud frame_data (generatePointCloud frame_data)) = n"
    and "length (intensityMap frame_data) = n"
    and "int n = sint (height frame_data) * sint (width frame_data)"
    and "14 * n < 2 ^ 32"
  shows "\<exists>m. trace (publishPointCloud header frame_data w) =
               trace w @ [Invoke pointcloud_pub, Resize (n * 14), GeneratePointCloud,
                          TransformPointCloud, Publish pointcloud_pub (PointCloud2Msg m)]
           \<and> fault (publishPointCloud header frame_data w) = fault w
           \<and> length (pc_data m) = n * 14
           \<and> point_step m = 14
           \<and> map pf_name (pc_fields m) = [''x'', ''y'', ''z'', ''intensity'']
           \<and> map pf_offset (pc_fields m) = [0, 4, 8, 12]
           \<and> (\<forall>i < n.
                 take 12 (drop (i * 14) (pc_data m)) =
                   native_PointXYZ (host_big_endian w)
                     (transformPointCloud frame_data (generatePointCloud frame_data) ! i)
               \<and> take 2 (drop (i * 14 + 12) (pc_data m)) =
                   native_u16 (host_big_endian w) (intensityMap frame_data ! i))"
proof -
  let ?ps = "transformPointCloud frame_data (generatePointCloud frame_data)"
  let ?vs = "intensityMap frame_data"
  let ?big = "host_big_endian w"
  let ?D = "concat (map (point_record ?big) (zip ?ps ?vs))"
  let ?m = "(cloud_before_copy header frame_data)\<lparr>pc_data := ?D @ replicate (buffer_size frame_data - 14 * length ?vs) 0\<rparr>"
  have size: "buffer_size frame_data = 14 * n"
    unfolding buffer_size_def using assms(3,4) by (rule buffer_size_exact)
  have eq: "length ?ps = length ?vs" using assms(1,2) by simp
  have run: "publishPointCloud header frame_data w =
     w\<lparr>trace := trace w @ [Invoke pointcloud_pub, Resize (buffer_size frame_data),
            GeneratePointCloud, TransformPointCloud,
            Publish pointcloud_pub (PointCloud2Msg ?m)]\<rparr>"
    by (rule publishPointCloud_fits [OF eq]) (simp add: size assms(2))
  have lenD: "length ?D = n * 14"
    using eq assms(1) length_concat_const [of "point_record ?big" 14 "zip ?ps ?vs"] by simp
  show ?thesis
  proof (intro exI [of _ ?m] conjI allI impI)
    show "trace (publishPointCloud header frame_data w) =
               trace w @ [Invoke pointcloud_pub, Resize (n * 14), GeneratePointCloud,
                          TransformPointCloud, Publish pointcloud_pub (PointCloud2Msg ?m)]"
      by (simp add: run size)
    show "fault (publishPointCloud header frame_data w) = fault w"
      by (simp add: run)
    show "length (pc_data ?m) = n * 14"
      using lenD by (simp add: size assms(2))
    show "point_step ?m = 14" by simp
    show "map pf_name (pc_fields ?m) = [''x'', ''y'', ''z'', ''intensity'']"
      by (simp add: cloud_before_copy_def point_fields_def)
    show "map pf_offset (pc_fields ?m) = [0, 4, 8, 12]"
      by (simp add: cloud_before_copy_def point_fields_def)
  next
    fix i assume "i < n"
    then have i: "i < length ?ps" using assms(1) by simp
    have "pc_data ?m = ?D @ replicate (buffer_size frame_data - 14 * length ?vs) 0" by simp
    then show "take 12 (drop (i * 14) (pc_data ?m)) = native_PointXYZ ?big (?ps ! i)"
      by (simp only: point_record_slices(1) [OF eq i])
  next
    fix i assume "i < n"
    then have i: "i < length ?ps" using assms(1) by simp
    have "pc_data ?m = ?D @ replicate (buffer_size frame_data - 14 * length ?vs) 0" by simp
    then show "take 2 (drop (i * 14 + 12) (pc_data ?m)) = native_u16 ?big (?vs ! i)"
      by (simp only: point_record_slices(2) [OF eq i])
  qed
qed

theorem point_cloud_layout_witness:
  "length (transformPointCloud example_frame (generatePointCloud example_frame)) = 2
   \<and> length (intensityMap example_frame) = 2
   \<and> int 2 = sint (height example_frame) * sint (width example_frame)
   \<and> (14 * 2 :: nat) < 2 ^ 32
   \<and> (\<exists>m. trace (publishPointCloud example_header example_frame example_world) =
            [Invoke pointcloud_pub, Resize 28, GeneratePointCloud, TransformPointCloud,
             Publish pointcloud_pub (PointCloud2Msg m)]
        \<and> length (pc_data m) = 28
        \<and> take 12 (drop 14 (pc_data m)) = native_PointXYZ False \<lparr>x = 4, y = 5, z = 6\<rparr>
        \<and> take 2 (drop 26 (pc_data m)) = native_u16 False 0x0304)"
proof -
  have h1: "length (transformPointCloud example_frame (generatePointCloud example_frame)) = 2"
    and h2: "length (intensityMap example_frame) = 2"
    and h3: "int 2 = sint (height example_frame) * sint (width example_frame)"
    and h4: "(14 * 2 :: nat) < 2 ^ 32"
    by (simp_all add: example_frame_def)
  from point_cloud_layout [OF h1 h2 h3 h4, of example_header example_world]
  obtain m where m0: "trace (publishPointCloud example_header example_frame example_world) =
               trace example_world @ [Invoke pointcloud_pub, Resize (2 * 14), GeneratePointCloud,
                          TransformPointCloud, Publish pointcloud_pub (PointCloud2Msg m)]"
      "length (pc_data m) = 2 * 14"
      "\<forall>i < 2.
                 take 12 (drop (i * 14) (pc_data m)) =
                   native_PointXYZ (host_big_endian example_world)
                     (transformPointCloud example_frame (generatePointCloud example_frame) ! i)
               \<and> take 2 (drop (i * 14 + 12) (pc_data m)) =
                   native_u16 (host_big_endian example_world) (intensityMap example_frame ! i)"
    by (elim exE conjE)
  note m = m0
  from m(3) [rule_format, of 1] have "take 12 (drop (1 * 14) (pc_data m)) =
                   native_PointXYZ (host_big_endian example_world)
                     (transformPointCloud example_frame (generatePointCloud example_frame) ! 1)
               \<and> take 2 (drop (1 * 14 + 12) (pc_data m)) =
                   native_u16 (host_big_endian example_world) (intensityMap example_frame ! 1)"
    by simp
  then have "\<exists>m. trace (publishPointCloud example_header example_frame example_world) =
            [Invoke pointcloud_pub, Resize 28, GeneratePointCloud, TransformPointCloud,
             Publish pointcloud_pub (PointCloud2Msg m)]
        \<and> length (pc_data m) = 28
        \<and> take 12 (drop 14 (pc_data m)) = native_PointXYZ False \<lparr>x = 4, y = 5, z = 6\<rparr>
        \<and> take 2 (drop 26 (pc_data m)) = native_u16 False 0x0304"
    using m(1,2) by (intro exI [of _ m]) (simp add: example_frame_def example_world_def)
  then show ?thesis using h1 h2 h3 h4 by (intro conjI)
qed

text \<open>
  Without the bound the statement fails: for one row of 306783379 pixels the three lengths
  agree, the buffer is resized to ten bytes, and the first copy leaves it.
\<close>

theorem point_cloud_layout_counterexample:
  "length (transformPointCloud wide_frame (generatePointCloud wide_frame)) = 306783379
   \<and> length (intensityMap wide_frame) = 306783379
   \<and> sint (height wide_frame) * sint (width wide_frame) = 306783379
   \<and> trace (publishPointCloud example_header wide_frame example_world) =
       [Invoke pointcloud_pub, Resize 10, GeneratePointCloud, TransformPointCloud]
   \<and> fault (publishPointCloud example_header wide_frame example_world) = Some OutOfBounds"
proof -
  have eq: "length (transformPointCloud wide_frame (generatePointCloud wide_frame)) =
            length (intensityMap wide_frame)"
    by (simp add: wide_frame_def example_frame_def)
  have len: "length (intensityMap wide_frame) = 306783379"
    by (simp add: wide_frame_def)
  have over: "buffer_size wide_frame < 14 * length (intensityMap wide_frame)"
    by (simp add: len)
  show ?thesis
    by (simp add: publishPointCloud_overflow [OF eq over] example_world_def)
       (simp add: wide_frame_def example_frame_def)
qed

text \<open>
  C4 (amended). The routine first resizes the point buffer (to the 32-bit product of height,
  14 and width, zero-filled), then makes the point generation and transform calls, then
  compares the lengths of the point list and the intensity map. When they differ, the
  only further step is the diagnostic: nothing is copied or published, and the buffer
  that was allocated is dropped. When they agree, the copy runs and either leaves the
  buffer or ends with the message handed to the publisher.
\<close>

theorem point_cloud_step_order:
  "\<exists>rest. trace (publishPointCloud header frame_data w) =
            trace w @ [Invoke pointcloud_pub,
                       Resize (unat (height frame_data * (14 * width frame_data))),
                       GeneratePointCloud, TransformPointCloud] @ rest
     \<and> (length (intensityMap frame_data) \<noteq>
          length (transformPointCloud frame_data (generatePointCloud frame_data)) \<longrightarrow>
          rest = [Info ''Missmatch point and intensity data.'']
          \<and> fault (publishPointCloud header frame_data w) = fault w)
     \<and> (length (intensityMap frame_data) =
          length (transformPointCloud frame_data (generatePointCloud frame_data)) \<longrightarrow>
          (rest = [] \<and> fault (publishPointCloud header frame_data w) = Some OutOfBounds)
          \<or> (\<exists>m. rest = [Publish pointcloud_pub (PointCloud2Msg m)]
               \<and> fault (publishPointCloud header frame_data w) = fault w))"
  using publishPointCloud_cases [of frame_data header w]
  by (elim disjE conjE exE) (simp_all add: buffer_size_def)

theorem point_cloud_step_order_witness:
  "length (intensityMap mismatch_frame) \<noteq>
     length (transformPointCloud mismatch_frame (generatePointCloud mismatch_frame))
   \<and> trace (publishPointCloud example_header mismatch_frame example_world) =
       [Invoke pointcloud_pub, Resize 28, GeneratePointCloud, TransformPointCloud] @
       [Info ''Missmatch point and intensity data.'']
   \<and> length (intensityMap example_frame) =
     length (transformPointCloud example_frame (generatePointCloud example_frame))
   \<and> (\<exists>m. trace (publishPointCloud example_header example_frame example_world) =
       [Invoke pointcloud_pub, Resize 28, GeneratePointCloud, TransformPointCloud] @
       [Publish pointcloud_pub (PointCloud2Msg m)])"
proof -
  have ne: "length (intensityMap mismatch_frame) \<noteq>
     length (transformPointCloud mismatch_frame (generatePointCloud mismatch_frame))"
    by (simp add: mismatch_frame_def example_frame_def)
  have eq: "length (intensityMap example_frame) =
     length (transformPointCloud example_frame (generatePointCloud example_frame))"
    by (simp add: example_frame_def)
  have s1: "unat (height mismatch_frame * (14 * width mismatch_frame)) = 28"
    and s2: "unat (height example_frame * (14 * width example_frame)) = 28"
    by (simp_all add: mismatch_frame_def example_frame_def)
  have t: "trace example_world = []" and fl: "fault example_world = None"
    by (simp_all add: example_world_def)
  from point_cloud_step_order [of example_header mismatch_frame example_world]
  have a: "trace (publishPointCloud example_header mismatch_frame example_world) =
       [Invoke pointcloud_pub, Resize 28, GeneratePointCloud, TransformPointCloud] @
       [Info ''Missmatch point and intensity data.'']"
    using ne by (simp only: s1 t append_Nil) blast
  have "fault (publishPointCloud example_header example_frame example_world) \<noteq> Some OutOfBounds"
    using publishPointCloud_fits [of example_frame example_header example_world] eq
    by (simp add: example_world_def) (simp add: example_frame_def)
  with point_cloud_step_order [of example_header example_frame example_world]
  have b: "\<exists>m. trace (publishPointCloud example_header example_frame example_world) =
       [Invoke pointcloud_pub, Resize 28, GeneratePointCloud, TransformPointCloud] @
       [Publish pointcloud_pub (PointCloud2Msg m)]"
    using eq by (simp only: s2 t append_Nil) blast
  show ?thesis using ne a eq b by (intro conjI)
qed

text \<open>
  The order the claim states (allocation only after the check has passed) is not the
  order of the code: on a frame with two points and one intensity sample the buffer of 28
  bytes is allocated, and only then are the points generated and the lengths compared.
\<close>

theorem point_cloud_step_order_counterexample:
  "length (intensityMap mismatch_frame) \<noteq>
     length (transformPointCloud mismatch_frame (generatePointCloud mismatch_frame))
   \<and> trace (publishPointCloud example_header mismatch_frame example_world) =
       [Invoke pointcloud_pub, Resize 28, GeneratePointCloud, TransformPointCloud,
        Info ''Missmatch point and intensity data.'']"
proof -
  have ne: "length (intensityMap mismatch_frame) \<noteq>
     length (transformPointCloud mismatch_frame (generatePointCloud mismatch_frame))"
    by (simp add: mismatch_frame_def example_frame_def)
  show ?thesis
    using ne by (simp add: publishPointCloud_mismatch [OF ne] example_world_def)
qed

text \<open>
  C9 (amended). Let the guard pass (point count equal to the intensity-map length) and
  let height \<times> width be non-negative with 14 \<times> height \<times> width below \<open>2^32\<close>. Then the
  buffer has 14 \<times> height \<times> width bytes, every write of the loop stays inside it if and
  only if the point count is at most height \<times> width, a larger point count runs out of
  bounds (no other guard is executed), and a point count equal to height \<times> width never
  does: the message is published.
\<close>

theorem packing_within_bounds:
  assumes "length (intensityMap frame_data) =
           length (transformPointCloud frame_data (generatePointCloud frame_data))"
    and "0 \<le> sint (height frame_data) * sint (width frame_data)"
    and "14 * (sint (height frame_data) * sint (width frame_data)) < 2 ^ 32"
    and "fault w = None"
  shows "Resize (14 * nat (sint (height frame_data) * sint (width frame_data)))
           \<in> set (trace (publishPointCloud header frame_data w))
       \<and> (fault (publishPointCloud header frame_data w) = None \<longleftrightarrow>
            int (length (transformPointCloud frame_data (generatePointCloud frame_data)))
              \<le> sint (height frame_data) * sint (width frame_data))
       \<and> (sint (height frame_data) * sint (width frame_data) <
            int (length (transformPointCloud frame_data (generatePointCloud frame_data))) \<longrightarrow>
            fault (publishPointCloud header frame_data w) = Some OutOfBounds)
       \<and> (int (length (transformPointCloud frame_data (generatePointCloud frame_data))) =
            sint (height frame_data) * sint (width frame_data) \<longrightarrow>
            fault (publishPointCloud header frame_data w) = None
            \<and> (\<exists>m. Publish pointcloud_pub (PointCloud2Msg m)
                   \<in> set (trace (publishPointCloud header frame_data w))))"
proof -
  let ?P = "sint (height frame_data) * sint (width frame_data)"
  let ?ps = "transformPointCloud frame_data (generatePointCloud frame_data)"
  have "int (nat ?P) = ?P" using assms(2) by simp
  moreover have "14 * nat ?P < 2 ^ 32" using assms(2,3) by (simp add: nat_less_iff nat_mult_distrib)
  ultimately have size: "buffer_size frame_data = 14 * nat ?P"
    unfolding buffer_size_def by (rule buffer_size_exact)
  have le_iff: "14 * length (intensityMap frame_data) \<le> buffer_size frame_data \<longleftrightarrow> int (length ?ps) \<le> ?P"
    using assms(1,2) size by auto
  from publishPointCloud_cases [of frame_data header w]
  show ?thesis
  proof (elim disjE conjE exE)
    assume "length (intensityMap frame_data) \<noteq> length ?ps"
    then show ?thesis using assms(1) by simp
  next
    assume over: "buffer_size frame_data < 14 * length (intensityMap frame_data)"
      and run: "publishPointCloud header frame_data w =
        w\<lparr>trace := trace w @ [Invoke pointcloud_pub, Resize (buffer_size frame_data),
            GeneratePointCloud, TransformPointCloud], fault := Some OutOfBounds\<rparr>"
    have "\<not> int (length ?ps) \<le> ?P" using over le_iff by simp
    then show ?thesis by (simp add: run size)
  next
    fix m
    assume fits: "14 * length (intensityMap frame_data) \<le> buffer_size frame_data"
      and run: "publishPointCloud header frame_data w =
        w\<lparr>trace := trace w @ [Invoke pointcloud_pub, Resize (buffer_size frame_data),
            GeneratePointCloud, TransformPointCloud,
            Publish pointcloud_pub (PointCloud2Msg m)]\<rparr>"
    have "int (length ?ps) \<le> ?P" using fits le_iff by simp
    then show ?thesis using assms(4) by (auto simp add: run size)
  qed
qed

theorem packing_within_bounds_witness:
  "length (intensityMap example_frame) =
     length (transformPointCloud example_frame (generatePointCloud example_frame))
   \<and> 0 \<le> sint (height example_frame) * sint (width example_frame)
   \<and> 14 * (sint (height example_frame) * sint (width example_frame)) < 2 ^ 32
   \<and> fault example_world = None
   \<and> int (length (transformPointCloud example_frame (generatePointCloud example_frame))) =
       sint (height example_frame) * sint (width example_frame)
   \<and> Resize 28 \<in> set (trace (publishPointCloud example_header example_frame example_world))
   \<and> fault (publishPointCloud example_header example_frame example_world) = None
   \<and> length (intensityMap crowded_frame) =
     length (transformPointCloud crowded_frame (generatePointCloud crowded_frame))
   \<and> 0 \<le> sint (height crowded_frame) * sint (width crowded_frame)
   \<and> 14 * (sint (height crowded_frame) * sint (width crowded_frame)) < 2 ^ 32
   \<and> sint (height crowded_frame) * sint (width crowded_frame) <
       int (length (transformPointCloud crowded_frame (generatePointCloud crowded_frame)))
   \<and> Resize 14 \<in> set (trace (publishPointCloud example_header crowded_frame example_world))
   \<and> fault (publishPointCloud example_header crowded_frame example_world) = Some OutOfBounds"
proof -
  have h1: "length (intensityMap example_frame) =
     length (transformPointCloud example_frame (generatePointCloud example_frame))"
    and h2: "0 \<le> sint (height example_frame) * sint (width example_frame)"
    and h3: "14 * (sint (height example_frame) * sint (width example_frame)) < 2 ^ 32"
    and h5: "int (length (transformPointCloud example_frame (generatePointCloud example_frame))) =
       sint (height example_frame) * sint (width example_frame)"
    and P: "sint (height example_frame) * sint (width example_frame) = 2"
    by (simp_all add: example_frame_def)
  have k1: "length (intensityMap crowded_frame) =
     length (transformPointCloud crowded_frame (generatePointCloud crowded_frame))"
    and k2: "0 \<le> sint (height crowded_frame) * sint (width crowded_frame)"
    and k3: "14 * (sint (height crowded_frame) * sint (width crowded_frame)) < 2 ^ 32"
    and k5: "sint (height crowded_frame) * sint (width crowded_frame) <
       int (length (transformPointCloud crowded_frame (generatePointCloud crowded_frame)))"
    and Q: "sint (height crowded_frame) * sint (width crowded_frame) = 1"
    by (simp_all add: crowded_frame_def example_frame_def)
  have h4: "fault example_world = None" by (simp add: example_world_def)
  note inst = packing_within_bounds [OF h1 h2 h3 h4, of example_header]
  note over = packing_within_bounds [OF k1 k2 k3 h4, of example_header]
  have a: "Resize 28 \<in> set (trace (publishPointCloud example_header example_frame example_world))"
    using inst [THEN conjunct1] by (simp add: P)
  have b: "fault (publishPointCloud example_header example_frame example_world) = None"
    using inst [THEN conjunct2, THEN conjunct2, THEN conjunct2] h5 by blast
  have c: "Resize 14 \<in> set (trace (publishPointCloud example_header crowded_frame example_world))"
    using over [THEN conjunct1] by (simp add: Q)
  have d: "fault (publishPointCloud example_header crowded_frame example_world) = Some OutOfBounds"
    using over [THEN conjunct2, THEN conjunct2, THEN conjunct1] k5 by blast
  show ?thesis using h1 h2 h3 h4 h5 a b k1 k2 k3 k5 c d by (intro conjI)
qed

text \<open>
  Without the bound on the product both parts fail. One point in a frame of one row and
  306783379 columns is at most height \<times> width, and its fourteen bytes do not fit the
  ten-byte buffer; and with 306783379 points and intensity samples in that frame, so that
  the three lengths agree, the first copy already leaves the buffer.
\<close>

theorem packing_within_bounds_counterexample:
  "length (intensityMap wide_frame_one_point) = 1
   \<and> length (transformPointCloud wide_frame_one_point (generatePointCloud wide_frame_one_point)) = 1
   \<and> sint (height wide_frame_one_point) * sint (width wide_frame_one_point) = 306783379
   \<and> trace (publishPointCloud example_header wide_frame_one_point example_world) =
       [Invoke pointcloud_pub, Resize 10, GeneratePointCloud, TransformPointCloud]
   \<and> fault (publishPointCloud example_header wide_frame_one_point example_world) = Some OutOfBounds
   \<and> length (intensityMap wide_frame) = 306783379
   \<and> length (transformPointCloud wide_frame (generatePointCloud wide_frame)) = 306783379
   \<and> sint (height wide_frame) * sint (width wide_frame) = 306783379
   \<and> fault (publishPointCloud example_header wide_frame example_world) = Some OutOfBounds"
proof -
  have len: "length (intensityMap wide_frame_one_point) = 1"
    by (simp add: wide_frame_one_point_def)
  have eq: "length (transformPointCloud wide_frame_one_point (generatePointCloud wide_frame_one_point)) =
            length (intensityMap wide_frame_one_point)"
    by (simp add: wide_frame_one_point_def example_frame_def)
  have over: "buffer_size wide_frame_one_point < 14 * length (intensityMap wide_frame_one_point)"
    by (simp add: len)
  have len': "length (intensityMap wide_frame) = 306783379"
    by (simp add: wide_frame_def)
  have eq': "length (transformPointCloud wide_frame (generatePointCloud wide_frame)) =
            length (intensityMap wide_frame)"
    by (simp add: wide_frame_def example_frame_def)
  have over': "buffer_size wide_frame < 14 * length (intensityMap wide_frame)"
    by (simp add: len')
  have one: "length (intensityMap wide_frame_one_point) = 1
   \<and> length (transformPointCloud wide_frame_one_point (generatePointCloud wide_frame_one_point)) = 1
   \<and> sint (height wide_frame_one_point) * sint (width wide_frame_one_point) = 306783379
   \<and> trace (publishPointCloud example_header wide_frame_one_point example_world) =
       [Invoke pointcloud_pub, Resize 10, GeneratePointCloud, TransformPointCloud]
   \<and> fault (publishPointCloud example_header wide_frame_one_point example_world) = Some OutOfBounds"
    by (simp add: publishPointCloud_overflow [OF eq over] example_world_def)
       (simp add: wide_frame_one_point_def example_frame_def)
  have all: "length (intensityMap wide_frame) = 306783379
   \<and> length (transformPointCloud wide_frame (generatePointCloud wide_frame)) = 306783379
   \<and> sint (height wide_frame) * sint (width wide_frame) = 306783379
   \<and> fault (publishPointCloud example_header wide_frame example_world) = Some OutOfBounds"
    by (simp add: publishPointCloud_overflow [OF eq' over'] example_world_def)
       (simp add: wide_frame_def example_frame_def)
  show ?thesis using one all by simp
qed

text \<open>
  C10 (amended). Both raster helpers copy the whole source vector into a raster of
  height \<times> width samples (height and width non-negative) without comparing the two
  lengths. The copy stays inside the raster if and only if the vector has at most
  height \<times> width samples; a longer vector is copied out of bounds, a shorter one leaves the
  rest of the raster as the allocation found it. When the vector has exactly
  height \<times> width samples the copy is total and exact: the raster is the vector's bytes,
  sample for sample.
\<close>

theorem raster_copy_bounds:
  assumes "0 \<le> sint (height frame_data)" and "0 \<le> sint (width frame_data)"
  shows "((\<exists>img. Vec16ToImage big mem header frame_data vec16 = Inr img) \<longleftrightarrow>
            int (length vec16) \<le> sint (height frame_data) * sint (width frame_data))
       \<and> ((\<exists>img. Vec8ToImage big mem header frame_data vec8 = Inr img) \<longleftrightarrow>
            int (length vec8) \<le> sint (height frame_data) * sint (width frame_data))
       \<and> (sint (height frame_data) * sint (width frame_data) < int (length vec16) \<longrightarrow>
            Vec16ToImage big mem header frame_data vec16 = Inl OutOfBounds)
       \<and> (sint (height frame_data) * sint (width frame_data) < int (length vec8) \<longrightarrow>
            Vec8ToImage big mem header frame_data vec8 = Inl OutOfBounds)
       \<and> (int (length vec16) \<le> sint (height frame_data) * sint (width frame_data) \<longrightarrow>
            (\<exists>img. Vec16ToImage big mem header frame_data vec16 = Inr img
               \<and> img_data img = concat (map (native_u16 big) vec16) @
                   map mem [2 * length vec16..<
                            2 * nat (sint (height frame_data) * sint (width frame_data))]))
       \<and> (int (length vec8) \<le> sint (height frame_data) * sint (width frame_data) \<longrightarrow>
            (\<exists>img. Vec8ToImage big mem header frame_data vec8 = Inr img
               \<and> img_data img = vec8 @
                   map mem [length vec8..<nat (sint (height frame_data) * sint (width frame_data))]))
       \<and> (int (length vec16) = sint (height frame_data) * sint (width frame_data) \<longrightarrow>
            (\<exists>img. Vec16ToImage big mem header frame_data vec16 = Inr img
               \<and> img_data img = concat (map (native_u16 big) vec16)
               \<and> (\<forall>i < length vec16. take 2 (drop (i * 2) (img_data img)) = native_u16 big (vec16 ! i))))
       \<and> (int (length vec8) = sint (height frame_data) * sint (width frame_data) \<longrightarrow>
            (\<exists>img. Vec8ToImage big mem header frame_data vec8 = Inr img \<and> img_data img = vec8))"
proof -
  let ?h = "sint (height frame_data)" and ?w = "sint (width frame_data)"
  have nn: "\<not> (?h < 0 \<or> ?w < 0)" using assms by simp
  have prod: "nat (?h * ?w) = nat ?h * nat ?w" using assms by (simp add: nat_mult_distrib)
  have le16: "2 * length vec16 \<le> nat ?h * nat ?w * 2 \<longleftrightarrow> int (length vec16) \<le> ?h * ?w"
    using le_product_iff(1) [OF assms, of "length vec16"] by simp
  have le8: "length vec8 \<le> nat ?h * nat ?w \<longleftrightarrow> int (length vec8) \<le> ?h * ?w"
    by (rule le_product_iff(1) [OF assms])
  have eq16: "int (length vec16) = ?h * ?w \<Longrightarrow> 2 * length vec16 = nat ?h * nat ?w * 2"
    using le_product_iff(2) [OF assms, of "length vec16"] by simp
  have eq8: "int (length vec8) = ?h * ?w \<Longrightarrow> length vec8 = nat ?h * nat ?w"
    using le_product_iff(2) [OF assms, of "length vec8"] by simp
  have slices: "\<forall>i < length vec16.
      take 2 (drop (i * 2) (concat (map (native_u16 big) vec16))) = native_u16 big (vec16 ! i)"
    using chunk_of_concat [of "native_u16 big" 2 _ vec16] by simp
  have c1: "(\<exists>img. Vec16ToImage big mem header frame_data vec16 = Inr img) \<longleftrightarrow>
            int (length vec16) \<le> ?h * ?w"
    unfolding Vec16ToImage_eq using nn le16 by simp
  have c2: "(\<exists>img. Vec8ToImage big mem header frame_data vec8 = Inr img) \<longleftrightarrow>
            int (length vec8) \<le> ?h * ?w"
    unfolding Vec8ToImage_eq using nn le8 by simp
  have c3: "?h * ?w < int (length vec16) \<longrightarrow>
            Vec16ToImage big mem header frame_data vec16 = Inl OutOfBounds"
    unfolding Vec16ToImage_eq using nn le16 by simp
  have c4: "?h * ?w < int (length vec8) \<longrightarrow>
            Vec8ToImage big mem header frame_data vec8 = Inl OutOfBounds"
    unfolding Vec8ToImage_eq using nn le8 by simp
  have c5: "int (length vec16) \<le> ?h * ?w \<longrightarrow>
            (\<exists>img. Vec16ToImage big mem header frame_data vec16 = Inr img
               \<and> img_data img = concat (map (native_u16 big) vec16) @
                   map mem [2 * length vec16..<2 * nat (?h * ?w)])"
    unfolding Vec16ToImage_eq using nn le16 by (simp add: toImageMsg_def prod mult.commute)
  have c6: "int (length vec8) \<le> ?h * ?w \<longrightarrow>
            (\<exists>img. Vec8ToImage big mem header frame_data vec8 = Inr img
               \<and> img_data img = vec8 @ map mem [length vec8..<nat (?h * ?w)])"
    unfolding Vec8ToImage_eq using nn le8 by (simp add: toImageMsg_def prod)
  have c7: "int (length vec16) = ?h * ?w \<longrightarrow>
            (\<exists>img. Vec16ToImage big mem header frame_data vec16 = Inr img
               \<and> img_data img = concat (map (native_u16 big) vec16)
               \<and> (\<forall>i < length vec16. take 2 (drop (i * 2) (img_data img)) = native_u16 big (vec16 ! i)))"
    unfolding Vec16ToImage_eq using nn eq16 slices by (simp add: toImageMsg_def)
  have c8: "int (length vec8) = ?h * ?w \<longrightarrow>
            (\<exists>img. Vec8ToImage big mem header frame_data vec8 = Inr img \<and> img_data img = vec8)"
    unfolding Vec8ToImage_eq using nn eq8 by (simp add: toImageMsg_def)
  show ?thesis
    using c1 c2 c3 c4 c5 c6 c7 c8 by (intro conjI)
qed

theorem raster_copy_bounds_witness:
  "0 \<le> sint (height example_frame) \<and> 0 \<le> sint (width example_frame)
   \<and> int (length (distanceMap example_frame)) = sint (height example_frame) * sint (width example_frame)
   \<and> int (length (stateMap example_frame)) = sint (height example_frame) * sint (width example_frame)
   \<and> sint (height example_frame) * sint (width example_frame) < int (length [1, 2, 3 :: u16])
   \<and> sint (height example_frame) * sint (width example_frame) < int (length [1, 2, 3 :: u8])
   \<and> (\<exists>img. Vec16ToImage False (uninitialised example_world depth_pub) example_header
               example_frame (distanceMap example_frame) = Inr img
          \<and> img_data img = [1, 0, 2, 0] \<and> take 2 (drop 2 (img_data img)) = native_u16 False 2)
   \<and> (\<exists>img. Vec8ToImage False (uninitialised example_world state_pub) example_header
               example_frame (stateMap example_frame) = Inr img \<and> img_data img = [1, 2])
   \<and> Vec16ToImage False (uninitialised example_world depth_pub) example_header
               example_frame [1, 2, 3] = Inl OutOfBounds
   \<and> Vec8ToImage False (uninitialised example_world state_pub) example_header
               example_frame [1, 2, 3] = Inl OutOfBounds"
proof -
  have h1: "0 \<le> sint (height example_frame)" and h2: "0 \<le> sint (width example_frame)"
    and e16: "int (length (distanceMap example_frame)) =
              sint (height example_frame) * sint (width example_frame)"
    and e8: "int (length (stateMap example_frame)) =
              sint (height example_frame) * sint (width example_frame)"
    and o16: "sint (height example_frame) * sint (width example_frame) < int (length [1, 2, 3 :: u16])"
    and o8: "sint (height example_frame) * sint (width example_frame) < int (length [1, 2, 3 :: u8])"
    by (simp_all add: example_frame_def)
  note fit = raster_copy_bounds [OF h1 h2, of False "uninitialised example_world depth_pub"
      example_header "distanceMap example_frame" "stateMap example_frame"]
  note fit8 = raster_copy_bounds [OF h1 h2, of False "uninitialised example_world state_pub"
      example_header "distanceMap example_frame" "stateMap example_frame"]
  note over = raster_copy_bounds [OF h1 h2, of False "uninitialised example_world depth_pub"
      example_header "[1, 2, 3]" "[1, 2, 3]"]
  note over8 = raster_copy_bounds [OF h1 h2, of False "uninitialised example_world state_pub"
      example_header "[1, 2, 3]" "[1, 2, 3]"]
  have dm: "distanceMap example_frame = [1, 2]" and sm: "stateMap example_frame = [1, 2]"
    by (simp_all add: example_frame_def)
  from fit [THEN conjunct2, THEN conjunct2, THEN conjunct2, THEN conjunct2, THEN conjunct2,
            THEN conjunct2, THEN conjunct1, rule_format, OF e16]
  obtain img where img: "Vec16ToImage False (uninitialised example_world depth_pub) example_header
               example_frame (distanceMap example_frame) = Inr img"
      "img_data img = concat (map (native_u16 False) (distanceMap example_frame))"
      "\<forall>i < length (distanceMap example_frame).
          take 2 (drop (i * 2) (img_data img)) = native_u16 False (distanceMap example_frame ! i)"
    by (elim exE conjE)
  have a: "\<exists>img. Vec16ToImage False (uninitialised example_world depth_pub) example_header
               example_frame (distanceMap example_frame) = Inr img
          \<and> img_data img = [1, 0, 2, 0] \<and> take 2 (drop 2 (img_data img)) = native_u16 False 2"
    using img(1,2) img(3) [rule_format, of 1]
    by (intro exI [of _ img]) (simp add: dm native_u16_def)
  from fit8 [THEN conjunct2, THEN conjunct2, THEN conjunct2, THEN conjunct2, THEN conjunct2,
            THEN conjunct2, THEN conjunct2, rule_format, OF e8]
  have b: "\<exists>img. Vec8ToImage False (uninitialised example_world state_pub) example_header
               example_frame (stateMap example_frame) = Inr img \<and> img_data img = [1, 2]"
    by (simp add: sm)
  have c: "Vec16ToImage False (uninitialised example_world depth_pub) example_header
               example_frame [1, 2, 3] = Inl OutOfBounds"
    using over [THEN conjunct2, THEN conjunct2, THEN conjunct1] o16 by blast
  have d: "Vec8ToImage False (uninitialised example_world state_pub) example_header
               example_frame [1, 2, 3] = Inl OutOfBounds"
    using over8 [THEN conjunct2, THEN conjunct2, THEN conjunct2, THEN conjunct1] o8 by blast
  show ?thesis using h1 h2 e16 e8 o16 o8 a b c d by (intro conjI)
qed

text \<open>
  The precondition of equal length is not the only case in which the copy stays in
  bounds: an empty vector is copied into the raster of one row and two columns without
  leaving it, and the image handed on holds the bytes that were in memory before.
\<close>

theorem raster_copy_bounds_counterexample:
  "int (length ([] :: u16 list)) \<noteq> sint (height example_frame) * sint (width example_frame)
   \<and> Vec16ToImage False (uninitialised example_world depth_pub) example_header example_frame [] =
       Inr \<lparr>img_header = example_header, img_height = 1, img_width = 2, img_encoding = ''16UC1'',
            img_is_bigendian = False, img_step = 4, img_data = [0xAA, 0xAA, 0xAA, 0xAA]\<rparr>
   \<and> int (length ([] :: u8 list)) \<noteq> sint (height example_frame) * sint (width example_frame)
   \<and> Vec8ToImage False (uninitialised example_world state_pub) example_header example_frame [] =
       Inr \<lparr>img_header = example_header, img_height = 1, img_width = 2, img_encoding = ''8UC1'',
            img_is_bigendian = False, img_step = 2, img_data = [0xAA, 0xAA]\<rparr>"
  by (simp add: Vec16ToImage_eq Vec8ToImage_eq toImageMsg_def example_frame_def example_world_def
      upt_rec numeral_eq_Suc)

text \<open>
  C7. Every message handed to a publisher during one call of \<open>publish\<close> carries the
  header the caller passed in; so all records of one call carry the same metadata.
\<close>

theorem metadata_identical:
  "\<exists>evs. trace (publish header frame_data w) = trace w @ evs
      \<and> (\<forall>c m. Publish c m \<in> set evs \<longrightarrow> msg_header m = header)"
proof (cases "fault w")
  case None
  let ?R = "run_channels channels header frame_data (getNumSubscribers w)
              (host_big_endian w) (uninitialised w)"
  have "trace (publish header frame_data w) = trace w @ fst ?R"
    by (simp add: publish_run [OF None])
  moreover have "\<forall>c m. Publish c m \<in> set (fst ?R) \<longrightarrow> msg_header m = header"
    by (rule run_channels_headers)
  ultimately show ?thesis by (intro exI [of _ "fst ?R"] conjI)
next
  case (Some e)
  then have "publish header frame_data w = w" by (simp add: publish_faulted)
  then show ?thesis by (intro exI [of _ "[]"]) simp
qed

theorem metadata_identical_witness:
  "\<exists>evs m. trace (publish example_header example_frame cloud_only_world) =
             trace cloud_only_world @ evs
         \<and> Publish pointcloud_pub m \<in> set evs \<and> msg_header m = example_header"
proof -
  from metadata_identical [of example_header example_frame cloud_only_world]
  obtain evs where evs: "trace (publish example_header example_frame cloud_only_world) =
             trace cloud_only_world @ evs"
    and hd: "\<forall>c m. Publish c m \<in> set evs \<longrightarrow> msg_header m = example_header"
    by (elim exE conjE)
  let ?m = "PointCloud2Msg (packed_cloud False example_header example_frame)"
  have "trace cloud_only_world = []" by simp
  with evs have "evs = [Invoke pointcloud_pub, Resize 28, GeneratePointCloud,
        TransformPointCloud, Publish pointcloud_pub ?m]"
    by (simp add: cloud_only_run)
  then have in_evs: "Publish pointcloud_pub ?m \<in> set evs" by simp
  with hd have "msg_header ?m = example_header" by blast
  with evs in_evs show ?thesis by (intro exI [of _ evs] exI [of _ ?m] conjI)
qed

text \<open>
  C2 (amended). A channel without a subscriber does nothing: no routine is entered, no
  step of it is logged, nothing is published. In a call that ends without a fault, the
  routine of a channel is entered if and only if the channel has a subscriber, and a
  record is published on a channel if and only if it has a subscriber and, for the
  point-cloud channel, the point list and the intensity map are equally long.
\<close>

theorem demand_gate:
  "\<exists>evs. trace (publish header frame_data w) = trace w @ evs
      \<and> (\<forall>c. getNumSubscribers w c = 0 \<longrightarrow> events_on c evs = [])
      \<and> (fault (publish header frame_data w) = None \<longrightarrow>
           (\<forall>c. Invoke c \<in> set evs \<longleftrightarrow> 0 < getNumSubscribers w c)
         \<and> (\<forall>c. (\<exists>m. Publish c m \<in> set evs) \<longleftrightarrow>
                 0 < getNumSubscribers w c
                 \<and> (c = pointcloud_pub \<longrightarrow>
                      length (intensityMap frame_data) =
                      length (transformPointCloud frame_data (generatePointCloud frame_data)))))"
proof (cases "fault w")
  case (Some e)
  then have same: "publish header frame_data w = w" by (simp add: publish_faulted)
  show ?thesis
  proof (intro exI [of _ "[]"] conjI)
    show "trace (publish header frame_data w) = trace w @ []" by (simp add: same)
    show "\<forall>c. getNumSubscribers w c = 0 \<longrightarrow> events_on c [] = []" by (simp add: events_on_def)
    show "fault (publish header frame_data w) = None \<longrightarrow>
           (\<forall>c. Invoke c \<in> set [] \<longleftrightarrow> 0 < getNumSubscribers w c)
         \<and> (\<forall>c. (\<exists>m. Publish c m \<in> set []) \<longleftrightarrow>
                 0 < getNumSubscribers w c
                 \<and> (c = pointcloud_pub \<longrightarrow>
                      length (intensityMap frame_data) =
                      length (transformPointCloud frame_data (generatePointCloud frame_data))))"
      using Some by (simp add: same)
  qed
next
  case None
  let ?R = "run_channels channels header frame_data (getNumSubscribers w)
              (host_big_endian w) (uninitialised w)"
  have tr: "trace (publish header frame_data w) = trace w @ fst ?R"
    and fl: "fault (publish header frame_data w) = snd ?R"
    by (simp_all add: publish_run [OF None])
  note g = run_channels_gate [where header = header and frame_data = frame_data
      and subs = "getNumSubscribers w" and big = "host_big_endian w" and mem = "uninitialised w"]
  show ?thesis
  proof (intro exI [of _ "fst ?R"] conjI)
    show "trace (publish header frame_data w) = trace w @ fst ?R" by (rule tr)
    show "\<forall>c. getNumSubscribers w c = 0 \<longrightarrow> events_on c (fst ?R) = []" by (rule g(1))
    show "fault (publish header frame_data w) = None \<longrightarrow>
           (\<forall>c. Invoke c \<in> set (fst ?R) \<longleftrightarrow> 0 < getNumSubscribers w c)
         \<and> (\<forall>c. (\<exists>m. Publish c m \<in> set (fst ?R)) \<longleftrightarrow>
                 0 < getNumSubscribers w c
                 \<and> (c = pointcloud_pub \<longrightarrow>
                      length (intensityMap frame_data) =
                      length (transformPointCloud frame_data (generatePointCloud frame_data))))"
      unfolding fl using g(2,3) unfolding mismatch_def by simp
  qed
qed

theorem demand_gate_witness:
  "getNumSubscribers cloud_only_world depth_pub = 0
   \<and> 0 < getNumSubscribers cloud_only_world pointcloud_pub
   \<and> fault (publish example_header example_frame cloud_only_world) = None
   \<and> length (intensityMap example_frame) =
       length (transformPointCloud example_frame (generatePointCloud example_frame))
   \<and> (\<exists>evs. trace (publish example_header example_frame cloud_only_world) =
              trace cloud_only_world @ evs
          \<and> events_on depth_pub evs = []
          \<and> Invoke pointcloud_pub \<in> set evs
          \<and> (\<exists>m. Publish pointcloud_pub m \<in> set evs))"
proof -
  have s0: "getNumSubscribers cloud_only_world depth_pub = 0"
    and s1: "0 < getNumSubscribers cloud_only_world pointcloud_pub"
    by simp_all
  have nf: "fault (publish example_header example_frame cloud_only_world) = None"
    by (simp add: cloud_only_run)
  have eq: "length (intensityMap example_frame) =
       length (transformPointCloud example_frame (generatePointCloud example_frame))"
    by (simp add: example_frame_def)
  from demand_gate [of example_header example_frame cloud_only_world]
  obtain evs where tr: "trace (publish example_header example_frame cloud_only_world) =
              trace cloud_only_world @ evs"
    and quiet: "\<forall>c. getNumSubscribers cloud_only_world c = 0 \<longrightarrow> events_on c evs = []"
    and busy: "fault (publish example_header example_frame cloud_only_world) = None \<longrightarrow>
           (\<forall>c. Invoke c \<in> set evs \<longleftrightarrow> 0 < getNumSubscribers cloud_only_world c)
         \<and> (\<forall>c. (\<exists>m. Publish c m \<in> set evs) \<longleftrightarrow>
                 0 < getNumSubscribers cloud_only_world c
                 \<and> (c = pointcloud_pub \<longrightarrow>
                      length (intensityMap example_frame) =
                      length (transformPointCloud example_frame (generatePointCloud example_frame))))"
    by (elim exE conjE)
  from quiet s0 have a: "events_on depth_pub evs = []" by blast
  from busy nf have inv: "\<forall>c. Invoke c \<in> set evs \<longleftrightarrow> 0 < getNumSubscribers cloud_only_world c"
    and pub: "\<forall>c. (\<exists>m. Publish c m \<in> set evs) \<longleftrightarrow>
                 0 < getNumSubscribers cloud_only_world c
                 \<and> (c = pointcloud_pub \<longrightarrow>
                      length (intensityMap example_frame) =
                      length (transformPointCloud example_frame (generatePointCloud example_frame)))"
    by blast+
  from inv [rule_format, of pointcloud_pub] s1 have b: "Invoke pointcloud_pub \<in> set evs" by simp
  from pub [rule_format, of pointcloud_pub] s1 eq
  have c: "\<exists>m. Publish pointcloud_pub m \<in> set evs" by simp
  have "\<exists>evs. trace (publish example_header example_frame cloud_only_world) =
              trace cloud_only_world @ evs
          \<and> events_on depth_pub evs = []
          \<and> Invoke pointcloud_pub \<in> set evs
          \<and> (\<exists>m. Publish pointcloud_pub m \<in> set evs)"
    using tr a b c by (intro exI [of _ evs] conjI)
  then show ?thesis using s0 s1 nf eq by (intro conjI)
qed

text \<open>
  The point-cloud channel with a subscriber and a frame of two points and one intensity
  sample: the routine is entered and nothing is published.
\<close>

theorem demand_gate_counterexample:
  "getNumSubscribers cloud_only_world pointcloud_pub = 1
   \<and> fault (publish example_header mismatch_frame cloud_only_world) = None
   \<and> trace (publish example_header mismatch_frame cloud_only_world) =
       [Invoke pointcloud_pub, Resize 28, GeneratePointCloud, TransformPointCloud,
        Info ''Missmatch point and intensity data.'']"
  by (simp add: cloud_only_mismatch_run)



text \<open>
  C8 (amended). Let a call end without a fault, and let the source map of every image
  channel that has a subscriber hold exactly height \<times> width samples. Then a second call
  with the same header, frame and subscribers logs the same steps and publishes the same
  records as the first, whatever the memory it allocates held before.
\<close>

theorem repeated_run_identical:
  assumes "fault w = None"
    and "fault (publish header frame_data w) = None"
    and "0 < getNumSubscribers w depth_pub \<longrightarrow>
         int (length (distanceMap frame_data)) = sint (height frame_data) * sint (width frame_data)"
    and "0 < getNumSubscribers w intensity_pub \<longrightarrow>
         int (length (intensityMap frame_data)) = sint (height frame_data) * sint (width frame_data)"
    and "0 < getNumSubscribers w state_pub \<longrightarrow>
         int (length (stateMap frame_data)) = sint (height frame_data) * sint (width frame_data)"
  shows "\<exists>evs. trace (publish header frame_data w) = trace w @ evs
     \<and> trace (publish header frame_data
                ((publish header frame_data w)\<lparr>uninitialised := mem'\<rparr>)) =
         trace w @ evs @ evs
     \<and> fault (publish header frame_data
                ((publish header frame_data w)\<lparr>uninitialised := mem'\<rparr>)) = None"
proof -
  let ?R = "run_channels channels header frame_data (getNumSubscribers w)
              (host_big_endian w) (uninitialised w)"
  let ?R' = "run_channels channels header frame_data (getNumSubscribers w)
              (host_big_endian w) mem'"
  have first: "publish header frame_data w = w\<lparr>trace := trace w @ fst ?R, fault := snd ?R\<rparr>"
    by (rule publish_run [OF assms(1)])
  have nf: "snd ?R = None" using assms(2) by (simp add: first)
  let ?w2 = "(publish header frame_data w)\<lparr>uninitialised := mem'\<rparr>"
  have w2: "fault ?w2 = None" "getNumSubscribers ?w2 = getNumSubscribers w"
    "host_big_endian ?w2 = host_big_endian w" "uninitialised ?w2 = mem'"
    "trace ?w2 = trace w @ fst ?R"
    using nf by (simp_all add: first)
  have filled: "\<forall>c. 0 < getNumSubscribers w c \<and> (c = depth_pub \<or> c = intensity_pub \<or> c = state_pub) \<longrightarrow>
         int (source_length c frame_data) = sint (height frame_data) * sint (width frame_data)"
    using assms(3-5) by (auto simp add: source_length_def)
  have same: "?R' = ?R" by (rule run_channels_mem [OF nf filled])
  have second: "publish header frame_data ?w2 = ?w2\<lparr>trace := trace ?w2 @ fst ?R', fault := snd ?R'\<rparr>"
    using publish_run [OF w2(1), of header frame_data] by (simp only: w2)
  show ?thesis
  proof (intro exI [of _ "fst ?R"] conjI)
    show "trace (publish header frame_data w) = trace w @ fst ?R" by (simp add: first)
    show "trace (publish header frame_data ?w2) = trace w @ fst ?R @ fst ?R"
      unfolding second same by (simp add: w2(5))
    show "fault (publish header frame_data ?w2) = None"
      unfolding second same by (simp add: nf)
  qed
qed

theorem repeated_run_identical_witness:
  "fault images_world = None
   \<and> fault (publish example_header example_frame images_world) = None
   \<and> 0 < getNumSubscribers images_world depth_pub
   \<and> int (length (distanceMap example_frame)) =
       sint (height example_frame) * sint (width example_frame)
   \<and> 0 < getNumSubscribers images_world intensity_pub
   \<and> int (length (intensityMap example_frame)) =
       sint (height example_frame) * sint (width example_frame)
   \<and> 0 < getNumSubscribers images_world state_pub
   \<and> int (length (stateMap example_frame)) =
       sint (height example_frame) * sint (width example_frame)
   \<and> (\<exists>evs. trace (publish example_header example_frame images_world) =
              trace images_world @ evs
          \<and> trace (publish example_header example_frame
                ((publish example_header example_frame images_world)
                   \<lparr>uninitialised := later_memory\<rparr>)) =
              trace images_world @ evs @ evs
          \<and> length evs = 6)"
proof -
  have h1: "fault images_world = None" by simp
  have h2: "fault (publish example_header example_frame images_world) = None"
    unfolding images_run by simp
  have s: "0 < getNumSubscribers images_world depth_pub"
    "0 < getNumSubscribers images_world intensity_pub"
    "0 < getNumSubscribers images_world state_pub"
    by simp_all
  have l: "int (length (distanceMap example_frame)) =
       sint (height example_frame) * sint (width example_frame)"
    "int (length (intensityMap example_frame)) =
       sint (height example_frame) * sint (width example_frame)"
    "int (length (stateMap example_frame)) =
       sint (height example_frame) * sint (width example_frame)"
    by (simp_all add: example_frame_def)
  from repeated_run_identical [OF h1 h2, of later_memory] l
  obtain evs where evs: "trace (publish example_header example_frame images_world) =
              trace images_world @ evs"
     "trace (publish example_header example_frame
                ((publish example_header example_frame images_world)
                   \<lparr>uninitialised := later_memory\<rparr>)) =
              trace images_world @ evs @ evs"
    by blast
  have "length (trace (publish example_header example_frame images_world)) = 6"
    unfolding images_run by simp
  then have "length evs = 6" unfolding evs(1) by simp
  with evs have "\<exists>evs. trace (publish example_header example_frame images_world) =
              trace images_world @ evs
          \<and> trace (publish example_header example_frame
                ((publish example_header example_frame images_world)
                   \<lparr>uninitialised := later_memory\<rparr>)) =
              trace images_world @ evs @ evs
          \<and> length evs = 6"
    by (intro exI [of _ evs] conjI)
  then show ?thesis using h1 h2 s l by (intro conjI)
qed

text \<open>
  With an empty distance map the depth raster of one row and two columns is never written:
  the two calls publish what the allocated memory held, and that differs.
\<close>

theorem repeated_run_identical_counterexample:
  "fault (publish example_header empty_distance_frame depth_only_world) = None
   \<and> trace (publish example_header empty_distance_frame depth_only_world) =
       [Invoke depth_pub,
        Publish depth_pub (ImageMsg
          \<lparr>img_header = example_header, img_height = 1, img_width = 2, img_encoding = ''16UC1'',
           img_is_bigendian = False, img_step = 4, img_data = [0xAA, 0xAA, 0xAA, 0xAA]\<rparr>)]
   \<and> trace (publish example_header empty_distance_frame
              ((publish example_header empty_distance_frame depth_only_world)
                 \<lparr>uninitialised := later_memory\<rparr>)) =
       [Invoke depth_pub,
        Publish depth_pub (ImageMsg
          \<lparr>img_header = example_header, img_height = 1, img_width = 2, img_encoding = ''16UC1'',
           img_is_bigendian = False, img_step = 4, img_data = [0xAA, 0xAA, 0xAA, 0xAA]\<rparr>),
        Invoke depth_pub,
        Publish depth_pub (ImageMsg
          \<lparr>img_header = example_header, img_height = 1, img_width = 2, img_encoding = ''16UC1'',
           img_is_bigendian = False, img_step = 4, img_data = [0x55, 0x55, 0x55, 0x55]\<rparr>)]"
proof -
  have dims: "0 \<le> sint (height empty_distance_frame)" "0 \<le> sint (width empty_distance_frame)"
    "2 * length (distanceMap empty_distance_frame) \<le>
       nat (sint (height empty_distance_frame)) * nat (sint (width empty_distance_frame)) * 2"
    by (simp_all add: empty_distance_frame_def example_frame_def)
  have vals: "height empty_distance_frame = 1" "width empty_distance_frame = 2"
    "distanceMap empty_distance_frame = []"
    by (simp_all add: empty_distance_frame_def example_frame_def)
  have run1: "publish example_header empty_distance_frame depth_only_world =
      depth_only_world\<lparr>trace := [Invoke depth_pub,
        Publish depth_pub (ImageMsg
          \<lparr>img_header = example_header, img_height = 1, img_width = 2, img_encoding = ''16UC1'',
           img_is_bigendian = False, img_step = 4, img_data = [0xAA, 0xAA, 0xAA, 0xAA]\<rparr>)]\<rparr>"
    by (subst depth_only_run [OF dims])
       (simp_all add: vals toImageMsg_def upt_rec numeral_eq_Suc)
  let ?w2 = "depth_only_world\<lparr>trace := [Invoke depth_pub,
        Publish depth_pub (ImageMsg
          \<lparr>img_header = example_header, img_height = 1, img_width = 2, img_encoding = ''16UC1'',
           img_is_bigendian = False, img_step = 4, img_data = [0xAA, 0xAA, 0xAA, 0xAA]\<rparr>)],
        uninitialised := later_memory\<rparr>"
  have run2: "trace (publish example_header empty_distance_frame ?w2) =
       [Invoke depth_pub,
        Publish depth_pub (ImageMsg
          \<lparr>img_header = example_header, img_height = 1, img_width = 2, img_encoding = ''16UC1'',
           img_is_bigendian = False, img_step = 4, img_data = [0xAA, 0xAA, 0xAA, 0xAA]\<rparr>),
        Invoke depth_pub,
        Publish depth_pub (ImageMsg
          \<lparr>img_header = example_header, img_height = 1, img_width = 2, img_encoding = ''16UC1'',
           img_is_bigendian = False, img_step = 4, img_data = [0x55, 0x55, 0x55, 0x55]\<rparr>)]"
    by (subst depth_only_run [OF dims])
       (simp_all add: vals toImageMsg_def later_memory_def upt_rec numeral_eq_Suc)
  show ?thesis
    unfolding run1 using run2 by simp
qed

end
